theory Spec2Isabelle
  imports Main "HOL-Library.Word"
begin

section \<open>JavaScript values\<close>

text \<open>
  A JavaScript string is a sequence of UTF-16 code units; \<open>substring\<close>, \<open>trim\<close>
  and \<open>includes\<close> all count code units. \<open>str\<close> embeds an ASCII literal of the source,
  and the few non-ASCII characters of its messages are written as code units.
\<close>

type_synonym jsstring = "16 word list"

definition ch :: "char \<Rightarrow> 16 word" where
  "ch c = of_nat (of_char c)"

definition str :: "string \<Rightarrow> jsstring" where
  "str s = map ch s"

text \<open>\<open>String.prototype.trim\<close>: strips WhiteSpace and LineTerminator code units
  (ECMA-262, 22.1.3.32) from both ends.\<close>

definition is_ws :: "16 word \<Rightarrow> bool" where
  "is_ws c = (c \<in> {0x9, 0xA, 0xB, 0xC, 0xD, 0x20, 0xA0, 0x1680,
      0x2000, 0x2001, 0x2002, 0x2003, 0x2004, 0x2005, 0x2006, 0x2007, 0x2008, 0x2009, 0x200A,
      0x2028, 0x2029, 0x202F, 0x205F, 0x3000, 0xFEFF})"

definition trim :: "jsstring \<Rightarrow> jsstring" where
  "trim s = rev (dropWhile is_ws (rev (dropWhile is_ws s)))"

text \<open>\<open>s.substring(0, n)\<close>.\<close>

definition substring0 :: "nat \<Rightarrow> jsstring \<Rightarrow> jsstring" where
  "substring0 n s = take n s"

text \<open>\<open>hay.includes(needle)\<close>.\<close>

fun is_prefix :: "jsstring \<Rightarrow> jsstring \<Rightarrow> bool" where
  "is_prefix [] ys = True"
| "is_prefix (x # xs) [] = False"
| "is_prefix (x # xs) (y # ys) = (x = y \<and> is_prefix xs ys)"

fun includes_str :: "jsstring \<Rightarrow> jsstring \<Rightarrow> bool" where
  "includes_str [] needle = (needle = [])"
| "includes_str (h # hay) needle = (is_prefix needle (h # hay) \<or> includes_str hay needle)"

text \<open>Decimal rendering of a non-negative integer, as a template literal prints a number.\<close>

definition digit :: "nat \<Rightarrow> 16 word" where
  "digit d = of_nat (48 + d)"

fun dec :: "nat \<Rightarrow> jsstring" where
  "dec n = (if n < 10 then [digit n] else dec (n div 10) @ [digit (n mod 10)])"

declare dec.simps [simp del]

text \<open>
  The values \<open>JSON.parse\<close> produces. A number is kept as its canonical rendering
  (\<open>Number.prototype.toString\<close>): the tool only tests numbers for truthiness, prints
  them and hands them back to \<open>JSON.stringify\<close>. An object is the list of its own
  properties in order.
\<close>

datatype json =
    JNull
  | JBool bool
  | JNum jsstring
  | JStr jsstring
  | JArr "json list"
  | JObj "(jsstring \<times> json) list"

text \<open>A value that may be \<open>undefined\<close> is a \<open>json option\<close>, \<open>None\<close> for \<open>undefined\<close>.
  \<open>truthy\<close> is the conversion ToBoolean.\<close>

fun truthy :: "json option \<Rightarrow> bool" where
  "truthy None = False"
| "truthy (Some JNull) = False"
| "truthy (Some (JBool b)) = b"
| "truthy (Some (JNum n)) = (n \<noteq> str ''0'')"
| "truthy (Some (JStr s)) = (s \<noteq> [])"
| "truthy (Some (JArr xs)) = True"
| "truthy (Some (JObj kvs)) = True"

text \<open>The conversion ToString, as a template literal applies it.\<close>

fun join :: "jsstring \<Rightarrow> jsstring list \<Rightarrow> jsstring" where
  "join sep [] = []"
| "join sep [x] = x"
| "join sep (x # y # ys) = x @ sep @ join sep (y # ys)"

fun to_string :: "json \<Rightarrow> jsstring" where
  "to_string JNull = str ''null''"
| "to_string (JBool b) = (if b then str ''true'' else str ''false'')"
| "to_string (JNum n) = n"
| "to_string (JStr s) = s"
| "to_string (JArr xs) = join (str '','') (map (\<lambda>x. if x = JNull then [] else to_string x) xs)"
| "to_string (JObj kvs) = str ''[object Object]''"

definition to_string_opt :: "json option \<Rightarrow> jsstring" where
  "to_string_opt v = (case v of None \<Rightarrow> str ''undefined'' | Some x \<Rightarrow> to_string x)"

section \<open>The process and its surroundings\<close>

text \<open>
  A file is its text, as \<open>readFileSync(p, 'utf8')\<close> returns it and \<open>writeFileSync\<close>
  stores it, and its permission bits; a directory has neither.
\<close>

datatype node = File (content: jsstring) (mode: nat) | Dir

datatype stream = Stdout | Stderr

text \<open>One call of \<open>fetch\<close>: the URL, the \<open>x-api-key\<close> header value and the object
  \<open>{text, date}\<close> handed to \<open>JSON.stringify\<close> (a \<open>date\<close> that is \<open>undefined\<close> is \<open>None\<close>).\<close>

record request =
  url :: jsstring
  x_api_key :: "json option"
  body_text :: jsstring
  body_date :: "jsstring option"

datatype fetch_result =
    Rejected jsstring
  | Response (status: nat) (statusText: jsstring) (body: jsstring)

text \<open>
  What the tool cannot decide by itself is a parameter: the home directory, the JSON
  library, the \<open>git\<close> executable (\<open>execSync\<close> gives its standard output, or throws with a
  message), the clock (milliseconds since the epoch, and the offset of local time from
  UTC in minutes), the \<open>node-fetch\<close> module and the server.
\<close>

record env =
  homedir :: jsstring
  json_parse :: "jsstring \<Rightarrow> jsstring + json"
  json_stringify :: "json \<Rightarrow> jsstring"
  git :: "jsstring \<Rightarrow> jsstring + jsstring"
  now :: int
  utc_offset :: int
  import_fetch :: "jsstring option"
  fetch :: "request \<Rightarrow> fetch_result"

text \<open>
  What a run changes or consumes: the file tree, the writes to the two output streams,
  the \<open>git\<close> commands run, the requests sent and the lines still to be typed on the
  terminal.
\<close>

record state =
  files :: "jsstring \<rightharpoonup> node"
  console :: "(stream \<times> jsstring) list"
  git_calls :: "jsstring list"
  requests :: "request list"
  stdin :: "jsstring list"

text \<open>
  A piece of the program either returns a value, ends the process (\<open>process.exit\<close>)
  or throws an \<open>Error\<close> with a message. \<open>bind\<close> is sequencing, \<open>try_catch\<close> is
  \<open>try { ... } catch (error) { ... }\<close> with \<open>error.message\<close> given to the handler;
  \<open>process.exit\<close> is not caught.
\<close>

datatype 'a outcome = Return 'a | Exit nat | Throw jsstring

type_synonym 'a io = "state \<Rightarrow> 'a outcome \<times> state"

definition ret :: "'a \<Rightarrow> 'a io" where
  "ret x s = (Return x, s)"

definition throw :: "jsstring \<Rightarrow> 'a io" where
  "throw e s = (Throw e, s)"

definition process_exit :: "nat \<Rightarrow> 'a io" where
  "process_exit n s = (Exit n, s)"

definition bind :: "'a io \<Rightarrow> ('a \<Rightarrow> 'b io) \<Rightarrow> 'b io" where
  "bind m f s = (case m s of
       (Return x, s') \<Rightarrow> f x s'
     | (Exit n, s') \<Rightarrow> (Exit n, s')
     | (Throw e, s') \<Rightarrow> (Throw e, s'))"

definition try_catch :: "'a io \<Rightarrow> (jsstring \<Rightarrow> 'a io) \<Rightarrow> 'a io" where
  "try_catch m h s = (case m s of
       (Throw e, s') \<Rightarrow> h e s'
     | r \<Rightarrow> r)"

definition lift :: "jsstring + 'a \<Rightarrow> 'a io" where
  "lift r = (case r of Inl e \<Rightarrow> throw e | Inr x \<Rightarrow> ret x)"

text \<open>\<open>console.log(a)\<close> and \<open>console.error(a)\<close>; with two arguments the texts are
  separated by one space.\<close>

definition console_log :: "jsstring \<Rightarrow> unit io" where
  "console_log line s = (Return (), s\<lparr>console := console s @ [(Stdout, line)]\<rparr>)"

definition console_error :: "jsstring \<Rightarrow> unit io" where
  "console_error line s = (Return (), s\<lparr>console := console s @ [(Stderr, line)]\<rparr>)"

definition console_error2 :: "jsstring \<Rightarrow> jsstring \<Rightarrow> unit io" where
  "console_error2 a b = console_error (a @ str '' '' @ b)"

subsection \<open>Property access\<close>

text \<open>
  \<open>v.k\<close> for one of the keys the tool uses (none of them is a property of a
  prototype): reading from \<open>null\<close> throws a TypeError, an object gives its own property,
  every other value gives \<open>undefined\<close>.
\<close>

definition get_prop :: "json \<Rightarrow> string \<Rightarrow> json option io" where
  "get_prop v k = (case v of
       JNull \<Rightarrow> throw (str ''Cannot read properties of null (reading '' @ str [CHR 0x27] @ str k
                        @ str [CHR 0x27] @ str '')'')
     | JObj kvs \<Rightarrow> ret (map_of kvs (str k))
     | _ \<Rightarrow> ret None)"

text \<open>
  \<open>v.k = x\<close> in strict mode (a class body is strict code): an object gets the
  property, in place when it has the key and at the end otherwise; an array gets a
  property that \<open>JSON.stringify\<close> does not write and that is never read back, so the
  array stays as it is; \<open>null\<close> and the primitive values throw a TypeError.
\<close>

fun assign :: "(jsstring \<times> json) list \<Rightarrow> jsstring \<Rightarrow> json \<Rightarrow> (jsstring \<times> json) list" where
  "assign [] k x = [(k, x)]"
| "assign ((k', y) # kvs) k x = (if k' = k then (k, x) # kvs else (k', y) # assign kvs k x)"

definition set_prop :: "json \<Rightarrow> string \<Rightarrow> json \<Rightarrow> json io" where
  "set_prop v k x = (case v of
       JObj kvs \<Rightarrow> ret (JObj (assign kvs (str k) x))
     | JArr xs \<Rightarrow> ret (JArr xs)
     | JNull \<Rightarrow> throw (str ''Cannot set properties of null (setting '' @ str [CHR 0x27] @ str k
                        @ str [CHR 0x27] @ str '')'')
     | _ \<Rightarrow> throw (str ''Cannot create property '' @ str [CHR 0x27] @ str k @ str [CHR 0x27]
                        @ str '' on '' @ to_string v))"

subsection \<open>The file system\<close>

text \<open>\<open>path.join\<close> and \<open>path.dirname\<close> on normalised POSIX paths.\<close>

definition slash :: "16 word" where
  "slash = 0x2F"

definition path_join :: "jsstring \<Rightarrow> jsstring \<Rightarrow> jsstring" where
  "path_join a b = a @ [slash] @ b"

definition dirname :: "jsstring \<Rightarrow> jsstring" where
  "dirname p = rev (drop 1 (dropWhile (\<lambda>c. c \<noteq> slash) (rev p)))"

definition existsSync :: "jsstring \<Rightarrow> bool io" where
  "existsSync p s = (Return (files s p \<noteq> None), s)"

definition readFileSync :: "jsstring \<Rightarrow> jsstring io" where
  "readFileSync p s = (case files s p of
       None \<Rightarrow> throw (str ''ENOENT: no such file or directory, open '' @ p) s
     | Some Dir \<Rightarrow> throw (str ''EISDIR: illegal operation on a directory, read'') s
     | Some (File c m) \<Rightarrow> (Return c, s))"

text \<open>A new file gets the mode \<open>0o666\<close> less the umask, taken as \<open>0o022\<close>.\<close>

definition mode_644 :: nat where
  "mode_644 = 6 * 64 + 4 * 8 + 4"

definition mode_755 :: nat where
  "mode_755 = 7 * 64 + 5 * 8 + 5"

definition writeFileSync :: "jsstring \<Rightarrow> jsstring \<Rightarrow> unit io" where
  "writeFileSync p d s = (case files s p of
       Some Dir \<Rightarrow> throw (str ''EISDIR: illegal operation on a directory, open '' @ p) s
     | Some (File c m) \<Rightarrow> (Return (), s\<lparr>files := (files s)(p \<mapsto> File d m)\<rparr>)
     | None \<Rightarrow>
         if files s (dirname p) = Some Dir
         then (Return (), s\<lparr>files := (files s)(p \<mapsto> File d mode_644)\<rparr>)
         else throw (str ''ENOENT: no such file or directory, open '' @ p) s)"

definition chmodSync :: "jsstring \<Rightarrow> nat \<Rightarrow> unit io" where
  "chmodSync p m s = (case files s p of
       None \<Rightarrow> throw (str ''ENOENT: no such file or directory, chmod '' @ p) s
     | Some Dir \<Rightarrow> (Return (), s)
     | Some (File c m') \<Rightarrow> (Return (), s\<lparr>files := (files s)(p \<mapsto> File c m)\<rparr>))"

definition copyFileSync :: "jsstring \<Rightarrow> jsstring \<Rightarrow> unit io" where
  "copyFileSync src dst s = (case files s src of
       None \<Rightarrow> throw (str ''ENOENT: no such file or directory, copyfile '' @ src) s
     | Some Dir \<Rightarrow> throw (str ''EISDIR: illegal operation on a directory, copyfile '' @ src) s
     | Some (File c m) \<Rightarrow>
         (case files s dst of
            Some Dir \<Rightarrow> throw (str ''EISDIR: illegal operation on a directory, copyfile '' @ src) s
          | Some (File c' m') \<Rightarrow> (Return (), s\<lparr>files := (files s)(dst \<mapsto> File c m)\<rparr>)
          | None \<Rightarrow>
              if files s (dirname dst) = Some Dir
              then (Return (), s\<lparr>files := (files s)(dst \<mapsto> File c m)\<rparr>)
              else throw (str ''ENOENT: no such file or directory, copyfile '' @ src) s))"

definition unlinkSync :: "jsstring \<Rightarrow> unit io" where
  "unlinkSync p s = (case files s p of
       None \<Rightarrow> throw (str ''ENOENT: no such file or directory, unlink '' @ p) s
     | Some Dir \<Rightarrow> throw (str ''EISDIR: illegal operation on a directory, unlink '' @ p) s
     | Some (File c m) \<Rightarrow> (Return (), s\<lparr>files := (files s)(p := None)\<rparr>))"

text \<open>
  \<open>mkdirSync(p, {recursive: true})\<close>: every missing directory on the way to \<open>p\<close> is
  made; a file in the way is an error.
\<close>

fun ancestors :: "jsstring \<Rightarrow> jsstring \<Rightarrow> jsstring list" where
  "ancestors acc [] = [acc]"
| "ancestors acc (c # cs) =
     (if c = slash \<and> acc \<noteq> [] then acc # ancestors (acc @ [c]) cs else ancestors (acc @ [c]) cs)"

definition is_file :: "node option \<Rightarrow> bool" where
  "is_file n = (case n of Some (File c m) \<Rightarrow> True | _ \<Rightarrow> False)"

definition mkdirSync_recursive :: "jsstring \<Rightarrow> unit io" where
  "mkdirSync_recursive p s =
     (if list_ex (\<lambda>a. is_file (files s a)) (ancestors [] p)
      then throw (str ''ENOTDIR: not a directory, mkdir '' @ p) s
      else (Return (), s\<lparr>files := (\<lambda>q. if q \<in> set (ancestors [] p) then Some Dir else files s q)\<rparr>))"

section \<open>The tool\<close>

subsection \<open>Configuration store\<close>

definition configPath :: "env \<Rightarrow> jsstring" where
  "configPath env = path_join (path_join (homedir env) (str ''.config'')) (str ''devlog.json'')"

definition defaultApiBaseUrl :: jsstring where
  "defaultApiBaseUrl = str ''http://localhost:3001''"

definition ensureConfigDir :: "env \<Rightarrow> unit io" where
  "ensureConfigDir env =
     bind (existsSync (dirname (configPath env))) (\<lambda>ex.
       if \<not> ex then mkdirSync_recursive (dirname (configPath env)) else ret ())"

definition loadConfig :: "env \<Rightarrow> json io" where
  "loadConfig env =
     bind (try_catch
        (bind (existsSync (configPath env)) (\<lambda>ex.
           if ex then
             bind (readFileSync (configPath env)) (\<lambda>text.
             bind (lift (json_parse env text)) (\<lambda>config.
             ret (Some config)))
           else ret None))
        (\<lambda>error. bind (console_error2 (str ''Error reading config:'') error) (\<lambda>_. ret None)))
     (\<lambda>r. case r of Some config \<Rightarrow> ret config | None \<Rightarrow> ret (JObj []))"

definition saveConfig :: "env \<Rightarrow> json \<Rightarrow> unit io" where
  "saveConfig env config =
     try_catch
       (bind (ensureConfigDir env) (\<lambda>_.
        bind (writeFileSync (configPath env) (json_stringify env config)) (\<lambda>_.
        console_log (str ''Configuration saved successfully.''))))
       (\<lambda>error. bind (console_error2 (str ''Error saving config:'') error) (\<lambda>_. process_exit 1))"

subsection \<open>Git inspector\<close>

text \<open>\<open>execSync(cmd)\<close>: the command is recorded, then the executable answers.\<close>

definition execSync :: "env \<Rightarrow> jsstring \<Rightarrow> jsstring io" where
  "execSync env cmd s = lift (git env cmd) (s\<lparr>git_calls := git_calls s @ [cmd]\<rparr>)"

definition git_log_message :: jsstring where
  "git_log_message = str ''git log -1 --pretty=%B''"

definition git_log_hash :: jsstring where
  "git_log_hash = str ''git log -1 --pretty=%H''"

definition git_rev_parse :: jsstring where
  "git_rev_parse = str ''git rev-parse --is-inside-work-tree''"

definition getLastCommitMessage :: "env \<Rightarrow> jsstring io" where
  "getLastCommitMessage env =
     try_catch
       (bind (execSync env git_log_message) (\<lambda>out. ret (trim out)))
       (\<lambda>error.
          bind (console_error2 (str ''Error getting last commit message:'') error) (\<lambda>_.
          bind (console_error
                  (str ''Make sure you are in a git repository and have at least one commit.'')) (\<lambda>_.
          process_exit 1)))"

text \<open>The result is \<open>None\<close> for the \<open>null\<close> of the \<open>catch\<close> branch.\<close>

definition getLastCommitHash :: "env \<Rightarrow> jsstring option io" where
  "getLastCommitHash env =
     try_catch
       (bind (execSync env git_log_hash) (\<lambda>out. ret (Some (substring0 8 (trim out)))))
       (\<lambda>error. ret None)"

definition isGitRepository :: "env \<Rightarrow> bool io" where
  "isGitRepository env =
     try_catch
       (bind (execSync env git_rev_parse) (\<lambda>out. ret True))
       (\<lambda>error. ret False)"

subsection \<open>Entry formatter\<close>

text \<open>
  \<open>new Date().toISOString()\<close>: the UTC calendar date and time of the instant, as
  \<open>YYYY-MM-DDTHH:mm:ss.sssZ\<close>, the year with a sign and six digits outside 0 to 9999.
  \<open>civil\<close> turns a day number (days since 1970-01-01) into year, month and day of the
  proleptic Gregorian calendar.
\<close>

definition civil :: "int \<Rightarrow> int \<times> int \<times> int" where
  "civil z =
    (let z' = z + 719468;
         era = z' div 146097;
         doe = z' mod 146097;
         yoe = (doe - doe div 1460 + doe div 36524 - doe div 146096) div 365;
         doy = doe - (365 * yoe + yoe div 4 - yoe div 100);
         mp = (5 * doy + 2) div 153;
         d = doy - (153 * mp + 2) div 5 + 1;
         m = (if mp < 10 then mp + 3 else mp - 9);
         y = yoe + era * 400 + (if m \<le> 2 then 1 else 0)
     in (y, m, d))"

definition pad :: "nat \<Rightarrow> int \<Rightarrow> jsstring" where
  "pad w n = (let ds = dec (nat n) in replicate (w - length ds) (digit 0) @ ds)"

definition iso_year :: "int \<Rightarrow> jsstring" where
  "iso_year y =
     (if 0 \<le> y \<and> y \<le> 9999 then pad 4 y
      else if y < 0 then str ''-'' @ pad 6 (- y)
      else str ''+'' @ pad 6 y)"

definition iso_date :: "int \<Rightarrow> jsstring" where
  "iso_date t = (case civil (t div 86400000) of
       (y, m, d) \<Rightarrow> iso_year y @ str ''-'' @ pad 2 m @ str ''-'' @ pad 2 d)"

definition iso_time :: "int \<Rightarrow> jsstring" where
  "iso_time t =
     (let ms = t mod 86400000
      in pad 2 (ms div 3600000) @ str '':'' @ pad 2 (ms div 60000 mod 60) @ str '':''
         @ pad 2 (ms div 1000 mod 60) @ str ''.'' @ pad 3 (ms mod 1000))"

definition toISOString :: "int \<Rightarrow> jsstring" where
  "toISOString t = iso_date t @ str ''T'' @ iso_time t @ str ''Z''"

text \<open>\<open>new Date().toISOString().split('T')[0]\<close>: the text before the first \<open>T\<close>.\<close>

definition getCurrentDate :: "env \<Rightarrow> jsstring" where
  "getCurrentDate env = takeWhile (\<lambda>c. c \<noteq> ch CHR ''T'') (toISOString (now env))"

definition formatLogEntry :: "env \<Rightarrow> jsstring \<Rightarrow> json \<Rightarrow> jsstring io" where
  "formatLogEntry env commitMessage config =
     bind (get_prop config ''includeCommitHash'') (\<lambda>includeCommitHash.
       if truthy includeCommitHash then
         bind (getLastCommitHash env) (\<lambda>commitHash.
           case commitHash of
             Some h \<Rightarrow>
               if h \<noteq> [] then ret (str ''['' @ h @ str ''] '' @ commitMessage)
               else ret commitMessage
           | None \<Rightarrow> ret commitMessage)
       else ret commitMessage)"

subsection \<open>API client\<close>

text \<open>
  The non-ASCII characters of the messages: U+2705, U+274C, U+26A0 U+FE0F, and the
  surrogate pairs of U+1F4DD, U+1F4CB, U+1F4C1, U+1F389 and U+1F4A1.
\<close>

definition check_mark :: jsstring where "check_mark = [0x2705]"
definition cross_mark :: jsstring where "cross_mark = [0x274C]"
definition warning_sign :: jsstring where "warning_sign = [0x26A0, 0xFE0F]"
definition memo :: jsstring where "memo = [0xD83D, 0xDCDD]"
definition clipboard :: jsstring where "clipboard = [0xD83D, 0xDCCB]"
definition file_folder :: jsstring where "file_folder = [0xD83D, 0xDCC1]"
definition party_popper :: jsstring where "party_popper = [0xD83C, 0xDF89]"
definition light_bulb :: jsstring where "light_bulb = [0xD83D, 0xDCA1]"

text \<open>\<open>fetch(url, {...})\<close>: the request is recorded, then the server or the network
  answers; a rejection is a thrown error.\<close>

definition do_fetch :: "env \<Rightarrow> request \<Rightarrow> fetch_result io" where
  "do_fetch env r s =
     (case fetch env r of
        Rejected e \<Rightarrow> (Throw e, s\<lparr>requests := requests s @ [r]\<rparr>)
      | resp \<Rightarrow> (Return resp, s\<lparr>requests := requests s @ [r]\<rparr>))"

text \<open>\<open>response.ok\<close>.\<close>

definition ok :: "fetch_result \<Rightarrow> bool" where
  "ok resp = (200 \<le> status resp \<and> status resp \<le> 299)"

definition postToApi :: "env \<Rightarrow> jsstring \<Rightarrow> jsstring option \<Rightarrow> json \<Rightarrow> json io" where
  "postToApi env text date config =
     bind (case import_fetch env of Some e \<Rightarrow> throw e | None \<Rightarrow> ret ()) (\<lambda>_.
     try_catch
       (bind (get_prop config ''apiBaseUrl'') (\<lambda>apiBaseUrl.
        bind (get_prop config ''apiKey'') (\<lambda>apiKey.
        bind (do_fetch env \<lparr>url = to_string_opt apiBaseUrl @ str ''/api/logs/append'',
                             x_api_key = apiKey, body_text = text, body_date = date\<rparr>) (\<lambda>response.
        if \<not> ok response then
          throw (str ''API request failed: '' @ dec (status response) @ str '' ''
                 @ statusText response @ str ''\<newline>'' @ body response)
        else
          bind (lift (json_parse env (body response))) (\<lambda>data. ret data)))))
       (\<lambda>error.
          bind (console_error2 (str ''Error posting to API:'') error) (\<lambda>_.
          process_exit 1)))"

subsection \<open>The main log function\<close>

text \<open>An argument that was not given is \<open>None\<close>; \<open>a || b\<close> takes \<open>b\<close> when \<open>a\<close> is
  missing or the empty string.\<close>

definition given :: "jsstring option \<Rightarrow> bool" where
  "given a = (case a of None \<Rightarrow> False | Some x \<Rightarrow> x \<noteq> [])"

definition success_line :: jsstring where
  "success_line = check_mark @ str '' Successfully logged to devlog''"

definition no_api_key_line :: jsstring where
  \<open>no_api_key_line = str ''No API key found. Please run "devlog config" first.''\<close>

text \<open>The \<open>try\<close> block that ends \<open>log\<close>: the call of the API and the report of its answer.\<close>

definition log_send :: "env \<Rightarrow> jsstring \<Rightarrow> jsstring option \<Rightarrow> json \<Rightarrow> unit io" where
  "log_send env logEntry date config =
     try_catch
       (bind (postToApi env logEntry date config) (\<lambda>result.
        bind (console_log success_line) (\<lambda>_.
        if truthy (Some result) then
          bind (get_prop result ''message'') (\<lambda>message.
            if truthy message then console_log (str ''Response: '' @ to_string_opt message)
            else ret ())
        else ret ())))
       (\<lambda>error.
          bind (console_error (cross_mark @ str '' Failed to log to devlog'')) (\<lambda>_.
          throw error))"

definition log :: "env \<Rightarrow> jsstring option \<Rightarrow> jsstring option \<Rightarrow> unit io" where
  "log env customMessage customDate =
     bind (loadConfig env) (\<lambda>config.
     bind (get_prop config ''apiKey'') (\<lambda>apiKey.
     bind (if \<not> truthy apiKey then
             bind (console_error no_api_key_line) (\<lambda>_. process_exit 1)
           else ret ()) (\<lambda>_.
     bind (if given customMessage then ret (the customMessage)
           else getLastCommitMessage env) (\<lambda>commitMessage.
     bind (formatLogEntry env commitMessage config) (\<lambda>logEntry.
     bind (if given customDate then ret customDate
           else bind (get_prop config ''includeDate'') (\<lambda>includeDate.
                  if truthy includeDate then ret (Some (getCurrentDate env)) else ret None)) (\<lambda>date.
     bind (console_log (str ''Logging: '' @ logEntry)) (\<lambda>_.
     bind (if given date then console_log (str ''Date: '' @ the date) else ret ()) (\<lambda>_.
     log_send env logEntry date config))))))))"

subsection \<open>Hook installer\<close>

definition newline :: jsstring where
  "newline = str ''\<newline>''"

definition hooksDir :: jsstring where
  "hooksDir = str ''.git/hooks''"

definition hookPath :: jsstring where
  "hookPath = path_join hooksDir (str ''post-commit'')"

definition backupPath :: jsstring where
  "backupPath = path_join hooksDir (str ''post-commit.backup'')"

text \<open>The template literal \<open>hookContent\<close>, line by line.\<close>

definition hookLines :: "jsstring list" where
  \<open>hookLines =
    [str ''#!/bin/bash'',
     str '''',
     str ''# post-commit hook for devlog'',
     str ''# This script runs after each git commit and automatically logs the commit message'',
     str '''',
     str ''# Check if devlog is available'',
     str ''if ! command -v devlog &> /dev/null; then'',
     str ''    echo "devlog command not found. Please install devlog-cli first."'',
     str ''    exit 0'',
     str ''fi'',
     str '''',
     str ''# Check if devlog is configured'',
     str ''if [ ! -f "$HOME/.config/devlog.json" ]; then'',
     str ''    echo "devlog not configured. Run 'devlog config' first."'',
     str ''    exit 0'',
     str ''fi'',
     str '''',
     str ''# Log the commit'',
     str ''echo "'' @ memo @ str '' Logging commit to devlog..."'',
     str ''devlog'',
     str '''',
     str ''# Exit with status 0 to not interfere with git operations'',
     str ''exit 0'']\<close>

definition hookContent :: jsstring where
  "hookContent = join newline hookLines"

definition not_a_repository :: "unit io" where
  "not_a_repository =
     bind (console_error (cross_mark @ str '' Current directory is not a git repository.'')) (\<lambda>_.
     bind (console_error (str ''Please run this command from within a git repository.'')) (\<lambda>_.
     process_exit 1))"

definition no_hooks_directory :: "unit io" where
  "no_hooks_directory =
     bind (console_error (cross_mark @ str '' .git/hooks directory not found.'')) (\<lambda>_.
     bind (console_error (str ''This might not be a valid git repository.'')) (\<lambda>_.
     process_exit 1))"

definition already_exists_line :: jsstring where
  "already_exists_line = warning_sign @ str ''  post-commit hook already exists.''"

definition already_integrated_line :: jsstring where
  "already_integrated_line = check_mark @ str '' devlog is already integrated in the existing hook.''"

definition not_integrated_lines :: "jsstring list" where
  \<open>not_integrated_lines =
    [str ''The existing hook does not contain devlog integration.'',
     str ''You can manually add "devlog" to your existing post-commit hook,'',
     str ''or backup and replace it by running this command with --force flag.'',
     newline @ str ''To backup and replace: devlog install --force'']\<close>

definition installed_lines :: "jsstring list" where
  \<open>installed_lines =
    [check_mark @ str '' Successfully installed devlog post-commit hook!'',
     file_folder @ str '' Hook installed at: '' @ hookPath,
     str '''',
     party_popper @ str '' devlog will now automatically log your commit messages.'',
     light_bulb @ str '' Make sure to run "devlog config" if you haven't already.'']\<close>

fun console_logs :: "jsstring list \<Rightarrow> unit io" where
  "console_logs [] = ret ()"
| "console_logs (l # ls) = bind (console_log l) (\<lambda>_. console_logs ls)"

definition installHook :: "env \<Rightarrow> unit io" where
  "installHook env =
     bind (isGitRepository env) (\<lambda>repo.
     bind (if \<not> repo then not_a_repository else ret ()) (\<lambda>_.
     bind (existsSync hooksDir) (\<lambda>dir.
     bind (if \<not> dir then no_hooks_directory else ret ()) (\<lambda>_.
     bind (existsSync hookPath) (\<lambda>hook.
       if hook then
         bind (console_log already_exists_line) (\<lambda>_.
         try_catch
           (bind (readFileSync hookPath) (\<lambda>existingHook.
              if includes_str existingHook (str ''devlog'')
              then console_log already_integrated_line
              else console_logs not_integrated_lines))
           (\<lambda>error.
              bind (console_error2 (str ''Error reading existing hook:'') error) (\<lambda>_.
              process_exit 1)))
       else
         try_catch
           (bind (writeFileSync hookPath hookContent) (\<lambda>_.
            bind (chmodSync hookPath mode_755) (\<lambda>_.
            console_logs installed_lines)))
           (\<lambda>error.
              bind (console_error2 (cross_mark @ str '' Error installing hook:'') error) (\<lambda>_.
              process_exit 1)))))))"

definition installHookForce :: "env \<Rightarrow> unit io" where
  "installHookForce env =
     bind (isGitRepository env) (\<lambda>repo.
     bind (if \<not> repo then
             bind (console_error (cross_mark @ str '' Current directory is not a git repository.''))
               (\<lambda>_. process_exit 1)
           else ret ()) (\<lambda>_.
     bind (existsSync hookPath) (\<lambda>hook.
     bind (if hook then
             try_catch
               (bind (copyFileSync hookPath backupPath) (\<lambda>_.
                console_log (clipboard @ str '' Backed up existing hook to: '' @ backupPath)))
               (\<lambda>error.
                  bind (console_error2 (str ''Error backing up existing hook:'') error) (\<lambda>_.
                  process_exit 1))
           else ret ()) (\<lambda>_.
     bind (existsSync hookPath) (\<lambda>hook.
     bind (if hook then unlinkSync hookPath else ret ()) (\<lambda>_.
     installHook env))))))"

subsection \<open>Interactive configuration\<close>

text \<open>
  \<open>prompt(question)\<close>: the question is written to the terminal and the next line
  typed is returned trimmed. At the end of input the promise never settles: nothing
  after the \<open>await\<close> runs and the process ends with status 0.
\<close>

definition prompt :: "jsstring \<Rightarrow> jsstring io" where
  "prompt question s =
     (case stdin s of
        [] \<Rightarrow> (Exit 0, s\<lparr>console := console s @ [(Stdout, question)]\<rparr>)
      | answer # rest \<Rightarrow>
          (Return (trim answer), s\<lparr>console := console s @ [(Stdout, question)], stdin := rest\<rparr>))"

definition configure :: "env \<Rightarrow> unit io" where
  "configure env =
     bind (console_log (str ''Configuring devlog...'' @ newline)) (\<lambda>_.
     bind (loadConfig env) (\<lambda>config.
     bind (get_prop config ''apiKey'') (\<lambda>oldKey.
     bind (if truthy oldKey then
             (case oldKey of
                Some (JStr k) \<Rightarrow> ret (str ''(current: '' @ substring0 8 k @ str ''...)'')
              | _ \<Rightarrow> throw (str ''config.apiKey.substring is not a function''))
           else ret []) (\<lambda>currentApiKey.
     bind (prompt (str ''Enter your API key '' @ currentApiKey @ str '': '')) (\<lambda>apiKey.
     bind (if apiKey \<noteq> [] then set_prop config ''apiKey'' (JStr apiKey)
           else bind (get_prop config ''apiKey'') (\<lambda>k.
                  if \<not> truthy k then
                    bind (console_error (str ''API key is required.'')) (\<lambda>_. process_exit 1)
                  else ret config)) (\<lambda>config.
     bind (get_prop config ''apiBaseUrl'') (\<lambda>oldBaseUrl.
     bind (ret (if truthy oldBaseUrl then the oldBaseUrl else JStr defaultApiBaseUrl)) (\<lambda>currentBaseUrl.
     bind (prompt (str ''Enter API base URL (default: '' @ to_string currentBaseUrl @ str ''): ''))
       (\<lambda>baseUrl.
     bind (set_prop config ''apiBaseUrl'' (if baseUrl \<noteq> [] then JStr baseUrl else currentBaseUrl))
       (\<lambda>config.
     bind (prompt (str ''Include commit hash in logs? (y/n, default: y): '')) (\<lambda>includeHash.
     bind (set_prop config ''includeCommitHash'' (JBool (includeHash \<noteq> str ''n''))) (\<lambda>config.
     bind (prompt (str ''Include date in log entries? (y/n, default: y): '')) (\<lambda>includeDate.
     bind (set_prop config ''includeDate'' (JBool (includeDate \<noteq> str ''n''))) (\<lambda>config.
     saveConfig env config))))))))))))))"

subsection \<open>Command dispatcher\<close>

definition helpLines :: "jsstring list" where
  \<open>helpLines =
    [str '''',
     str ''devlog - Developer Log CLI Tool'',
     str '''',
     str ''USAGE:'',
     str ''  devlog                    Log the last git commit message'',
     str ''  devlog config             Configure API key and settings'',
     str ''  devlog install            Install post-commit hook in current git repo'',
     str ''  devlog install --force    Install hook, backing up any existing post-commit hook'',
     str ''  devlog log "message"      Log a custom message'',
     str ''  devlog log "message" date Log a custom message with specific date (YYYY-MM-DD)'',
     str ''  devlog help               Show this help message'',
     str '''',
     str ''EXAMPLES:'',
     str ''  devlog config'',
     str ''  devlog install'',
     str ''  devlog'',
     str ''  devlog log "Fixed critical bug in payment processing"'',
     str ''  devlog log "Started new feature" 2025-06-24'',
     str '''',
     str ''CONFIGURATION:'',
     str ''  Configuration is stored in ~/.config/devlog.json'',
     str ''  '',
     str ''GIT HOOK SETUP:'',
     str ''  Use "devlog install" to automatically set up the post-commit hook.'',
     str ''  This will create .git/hooks/post-commit that runs devlog after each commit.'',
     str '''']\<close>

definition showHelp :: "unit io" where
  "showHelp = console_log (join newline helpLines)"

text \<open>\<open>run\<close> on \<open>process.argv.slice(2)\<close>.\<close>

definition run :: "env \<Rightarrow> jsstring list \<Rightarrow> unit io" where
  \<open>run env args =
     (case args of
        [] \<Rightarrow> log env None None
      | command # rest \<Rightarrow>
          if command = str ''config'' then configure env
          else if command = str ''install'' then
            (if str ''--force'' \<in> set args then installHookForce env else installHook env)
          else if command = str ''log'' then
            (case rest of
               [message] \<Rightarrow> log env (Some message) None
             | [message, date] \<Rightarrow> log env (Some message) (Some date)
             | _ \<Rightarrow> bind (console_error (str ''Usage: devlog log "message" [date]'')) (\<lambda>_.
                    process_exit 1))
          else if command = str ''help'' \<or> command = str ''--help'' \<or> command = str ''-h''
          then showHelp
          else bind (console_error (str ''Unknown command. Use "devlog help" for usage information.''))
                 (\<lambda>_. process_exit 1))\<close>

text \<open>The script's last lines: \<open>devlog.run().catch(...)\<close>.\<close>

definition main :: "env \<Rightarrow> jsstring list \<Rightarrow> unit io" where
  "main env args =
     try_catch (run env args)
       (\<lambda>error. bind (console_error2 (str ''Error:'') error) (\<lambda>_. process_exit 1))"

subsection \<open>The hook script\<close>

text \<open>
  The script in \<open>hookContent\<close> uses a small part of the shell: comments, \<open>echo\<close> of a
  double-quoted text without expansions, \<open>exit\<close>, running a command by its name, and
  \<open>if\<close> on two tests, \<open>! command -v NAME &> /dev/null\<close> (no executable of that name on
  the \<open>PATH\<close>; the redirection silences the test) and \<open>[ ! -f "FILE" ]\<close> (no regular
  file of that name; \<open>$HOME\<close> is expanded). \<open>sh_render\<close> gives back the text of a script.
\<close>

datatype sh_test = CommandMissing jsstring | FileMissing jsstring

datatype sh_line =
    Shebang jsstring
  | Blank
  | Comment jsstring
  | Echo jsstring
  | ExitWith nat
  | Invoke jsstring
  | IfThen sh_test "sh_line list"

definition sh_render_test :: "sh_test \<Rightarrow> jsstring" where
  \<open>sh_render_test t = (case t of
       CommandMissing name \<Rightarrow> str ''! command -v '' @ name @ str '' &> /dev/null''
     | FileMissing file \<Rightarrow> str ''[ ! -f "'' @ file @ str ''" ]'')\<close>

fun sh_render :: "sh_line \<Rightarrow> jsstring list" where
  \<open>sh_render (Shebang interpreter) = [str ''#!'' @ interpreter]\<close>
| \<open>sh_render Blank = [str '''']\<close>
| \<open>sh_render (Comment text) = [str ''# '' @ text]\<close>
| \<open>sh_render (Echo text) = [str ''echo "'' @ text @ str ''"'']\<close>
| \<open>sh_render (ExitWith n) = [str ''exit '' @ dec n]\<close>
| \<open>sh_render (Invoke name) = [name]\<close>
| \<open>sh_render (IfThen t block) =
     [str ''if '' @ sh_render_test t @ str ''; then'']
     @ map (\<lambda>l. str ''    '' @ l) (concat (map sh_render block))
     @ [str ''fi'']\<close>

definition hookScript :: "sh_line list" where
  \<open>hookScript =
    [Shebang (str ''/bin/bash''),
     Blank,
     Comment (str ''post-commit hook for devlog''),
     Comment (str ''This script runs after each git commit and automatically logs the commit message''),
     Blank,
     Comment (str ''Check if devlog is available''),
     IfThen (CommandMissing (str ''devlog''))
       [Echo (str ''devlog command not found. Please install devlog-cli first.''),
        ExitWith 0],
     Blank,
     Comment (str ''Check if devlog is configured''),
     IfThen (FileMissing (str ''$HOME/.config/devlog.json''))
       [Echo (str ''devlog not configured. Run 'devlog config' first.''),
        ExitWith 0],
     Blank,
     Comment (str ''Log the commit''),
     Echo (memo @ str '' Logging commit to devlog...''),
     Invoke (str ''devlog''),
     Blank,
     Comment (str ''Exit with status 0 to not interfere with git operations''),
     ExitWith 0]\<close>

text \<open>
  Running a script: what the machine has (the names on the \<open>PATH\<close>, the regular files,
  the value of \<open>HOME\<close>), and what the run does, in order: lines printed and commands
  run, each with its arguments, until an \<open>exit\<close> gives the status.
\<close>

record machine =
  on_path :: "jsstring \<Rightarrow> bool"
  regular_file :: "jsstring \<Rightarrow> bool"
  home :: jsstring

datatype sh_event = Printed jsstring | Ran jsstring "jsstring list" | NotFound jsstring

definition expand_home :: "machine \<Rightarrow> jsstring \<Rightarrow> jsstring" where
  "expand_home mc file =
     (if is_prefix (str ''$HOME'') file then home mc @ drop 5 file else file)"

definition sh_holds :: "machine \<Rightarrow> sh_test \<Rightarrow> bool" where
  "sh_holds mc t = (case t of
       CommandMissing name \<Rightarrow> \<not> on_path mc name
     | FileMissing file \<Rightarrow> \<not> regular_file mc (expand_home mc file))"

text \<open>The result is the events so far and the exit status, \<open>None\<close> while the script
  is still running.\<close>

fun sh_exec :: "machine \<Rightarrow> sh_line list \<Rightarrow> sh_event list \<Rightarrow> sh_event list \<times> nat option" where
  "sh_exec mc [] evs = (evs, None)"
| "sh_exec mc (Echo text # ls) evs = sh_exec mc ls (evs @ [Printed text])"
| "sh_exec mc (ExitWith n # ls) evs = (evs, Some n)"
| "sh_exec mc (Invoke name # ls) evs =
     sh_exec mc ls (evs @ [if on_path mc name then Ran name [] else NotFound name])"
| "sh_exec mc (IfThen t block # ls) evs =
     (if sh_holds mc t then
        (case sh_exec mc block evs of
           (evs', Some n) \<Rightarrow> (evs', Some n)
         | (evs', None) \<Rightarrow> sh_exec mc ls evs')
      else sh_exec mc ls evs)"
| "sh_exec mc (l # ls) evs = sh_exec mc ls evs"

section \<open>Notions used in the statements\<close>

text \<open>\<open>lookup v k\<close> is the value of \<open>v.k\<close> where reading it does not throw.\<close>

definition lookup :: "json \<Rightarrow> string \<Rightarrow> json option" where
  "lookup v k = (case v of JObj kvs \<Rightarrow> map_of kvs (str k) | _ \<Rightarrow> None)"

text \<open>The request \<open>postToApi\<close> builds from its arguments.\<close>

definition post_request :: "jsstring \<Rightarrow> jsstring option \<Rightarrow> json \<Rightarrow> request" where
  "post_request text date config =
     \<lparr>url = to_string_opt (lookup config ''apiBaseUrl'') @ str ''/api/logs/append'',
      x_api_key = lookup config ''apiKey'', body_text = text, body_date = date\<rparr>"

text \<open>The line \<open>console.error('Error posting to API:', message)\<close> writes, and the message
  of the error thrown for a response that is not \<open>ok\<close>.\<close>

definition api_error :: "jsstring \<Rightarrow> stream \<times> jsstring" where
  "api_error e = (Stderr, str ''Error posting to API:'' @ str '' '' @ e)"

definition failed_message :: "nat \<Rightarrow> jsstring \<Rightarrow> jsstring \<Rightarrow> jsstring" where
  "failed_message st stt b =
     str ''API request failed: '' @ dec st @ str '' '' @ stt @ str ''\<newline>'' @ b"

definition failed_line :: "stream \<times> jsstring" where
  "failed_line = (Stderr, cross_mark @ str '' Failed to log to devlog'')"

definition response_lines :: "json \<Rightarrow> (stream \<times> jsstring) list" where
  "response_lines data =
     (if truthy (Some data) \<and> truthy (lookup data ''message'')
      then [(Stdout, str ''Response: '' @ to_string_opt (lookup data ''message''))] else [])"

text \<open>What \<open>getLastCommitHash\<close> returns, the entry \<open>formatLogEntry\<close> makes of a message,
  the date \<open>log\<close> chooses, and the lines \<open>log\<close> prints before it calls the API.\<close>

definition hash_of :: "env \<Rightarrow> jsstring option" where
  "hash_of env =
     (case git env git_log_hash of Inl e \<Rightarrow> None | Inr out \<Rightarrow> Some (substring0 8 (trim out)))"

definition entry_of :: "env \<Rightarrow> json \<Rightarrow> jsstring \<Rightarrow> jsstring" where
  "entry_of env config m =
     (if truthy (lookup config ''includeCommitHash'') \<and> given (hash_of env)
      then str ''['' @ the (hash_of env) @ str ''] '' @ m else m)"

definition date_of :: "env \<Rightarrow> json \<Rightarrow> jsstring option \<Rightarrow> jsstring option" where
  "date_of env config cd =
     (if given cd then cd
      else if truthy (lookup config ''includeDate'') then Some (getCurrentDate env) else None)"

definition announce :: "jsstring \<Rightarrow> jsstring option \<Rightarrow> (stream \<times> jsstring) list" where
  "announce entry date =
     (Stdout, str ''Logging: '' @ entry)
     # (if given date then [(Stdout, str ''Date: '' @ the date)] else [])"

text \<open>What a run has written: the part of the console after what was there before.\<close>

definition printed :: "state \<Rightarrow> state \<Rightarrow> (stream \<times> jsstring) list" where
  "printed s s' = drop (length (console s)) (console s')"

section \<open>Example surroundings\<close>

text \<open>
  A machine to run the statements on: a home directory, a repository with one commit
  \<open>abcdef1234567890\<close> "Fix bug", a JSON library that knows the texts below, the instant
  2025-01-01T23:30:00Z in a zone one hour ahead of UTC, and a server that accepts.
\<close>

definition example_config :: "(jsstring \<times> json) list" where
  "example_config =
    [(str ''apiKey'', JStr (str ''k'')),
     (str ''apiBaseUrl'', JStr (str ''http://x'')),
     (str ''includeCommitHash'', JBool True),
     (str ''includeDate'', JBool True)]"

definition example_config_text :: jsstring where
  \<open>example_config_text =
     str ''{"apiKey":"k","apiBaseUrl":"http://x","includeCommitHash":true,"includeDate":true}''\<close>

definition plain_config :: "(jsstring \<times> json) list" where
  "plain_config =
    [(str ''apiKey'', JStr (str ''k'')),
     (str ''apiBaseUrl'', JStr (str ''http://x'')),
     (str ''includeCommitHash'', JBool False),
     (str ''includeDate'', JBool False)]"

definition plain_config_text :: jsstring where
  \<open>plain_config_text =
     str ''{"apiKey":"k","apiBaseUrl":"http://x","includeCommitHash":false,"includeDate":false}''\<close>

definition team_config :: "(jsstring \<times> json) list" where
  "team_config = [(str ''team'', JStr (str ''core'')), (str ''apiKey'', JStr (str ''k''))]"

definition team_config_text :: jsstring where
  \<open>team_config_text = str ''{"team":"core","apiKey":"k"}''\<close>

definition ok_body :: jsstring where
  \<open>ok_body = str ''{"message":"ok"}''\<close>

definition example_parse :: "jsstring \<Rightarrow> jsstring + json" where
  "example_parse t =
     (if t = example_config_text then Inr (JObj example_config)
      else if t = plain_config_text then Inr (JObj plain_config)
      else if t = team_config_text then Inr (JObj team_config)
      else if t = ok_body then Inr (JObj [(str ''message'', JStr (str ''ok''))])
      else Inl (str ''Unexpected end of JSON input''))"

definition example_git :: "jsstring \<Rightarrow> jsstring + jsstring" where
  "example_git cmd =
     (if cmd = git_log_hash then Inr (str ''abcdef1234567890\<newline>'')
      else if cmd = git_log_message then Inr (str ''Fix bug\<newline>'')
      else if cmd = git_rev_parse then Inr (str ''true\<newline>'')
      else Inl (str ''Command failed''))"

definition team_config_saved :: "(jsstring \<times> json) list" where
  "team_config_saved =
    [(str ''team'', JStr (str ''core'')),
     (str ''apiKey'', JStr (str ''new-key'')),
     (str ''apiBaseUrl'', JStr (str ''http://localhost:3001'')),
     (str ''includeCommitHash'', JBool False),
     (str ''includeDate'', JBool True)]"

definition team_config_saved_text :: jsstring where
  \<open>team_config_saved_text =
     str ''{\<newline>  "team": "core",\<newline>  "apiKey": "new-key",\<newline>  "apiBaseUrl": "http://localhost:3001",\<newline>  "includeCommitHash": false,\<newline>  "includeDate": true\<newline>}''\<close>

definition example_stringify :: "json \<Rightarrow> jsstring" where
  "example_stringify v = (if v = JObj team_config_saved then team_config_saved_text else str ''{}'')"

definition example_env :: env where
  "example_env =
     \<lparr>homedir = str ''/home/dev'',
      json_parse = example_parse,
      json_stringify = example_stringify,
      git = example_git,
      now = 1735774200000,
      utc_offset = 60,
      import_fetch = None,
      fetch = (\<lambda>r. Response 200 (str ''OK'') ok_body)\<rparr>"

definition refusing_env :: env where
  "refusing_env = example_env\<lparr>fetch := (\<lambda>r. Response 401 (str ''Unauthorized'') (str ''bad key''))\<rparr>"

definition initial :: "(jsstring \<rightharpoonup> node) \<Rightarrow> jsstring list \<Rightarrow> state" where
  "initial fs typed = \<lparr>files = fs, console = [], git_calls = [], requests = [], stdin = typed\<rparr>"

definition configured :: "jsstring \<Rightarrow> state" where
  "configured text =
     initial [dirname (configPath example_env) \<mapsto> Dir,
              configPath example_env \<mapsto> File text mode_644] []"

text \<open>
  The current local date in \<open>YYYY-MM-DD\<close>, in the words of the specification: the
  calendar date of the instant in the zone of the machine.
\<close>

definition local_date :: "env \<Rightarrow> jsstring" where
  "local_date env = iso_date (now env + utc_offset env * 60000)"

text \<open>The same machine without a repository.\<close>

definition no_git_env :: env where
  "no_git_env = example_env\<lparr>git := (\<lambda>cmd. Inl (str ''Command failed''))\<rparr>"

text \<open>The state after \<open>log "Manual note" 2025-01-01\<close>.\<close>

abbreviation manual_note_run :: "env \<Rightarrow> state \<Rightarrow> state" where
  "manual_note_run env s \<equiv> snd (run env [str ''log'', str ''Manual note'', str ''2025-01-01''] s)"

text \<open>The execute bits of owner, group and others in a mode.\<close>

definition executable_by_all :: "nat \<Rightarrow> bool" where
  "executable_by_all m = (odd (m div 64) \<and> odd (m div 8) \<and> odd m)"

text \<open>Three machines for the hook script, and a repository with given hook files.\<close>

definition machine_without_tool :: machine where
  "machine_without_tool =
     \<lparr>on_path = (\<lambda>name. False), regular_file = (\<lambda>file. False), home = str ''/home/dev''\<rparr>"

definition machine_without_config :: machine where
  "machine_without_config =
     \<lparr>on_path = (\<lambda>name. name = str ''devlog''), regular_file = (\<lambda>file. False),
      home = str ''/home/dev''\<rparr>"

definition machine_ready :: machine where
  "machine_ready =
     \<lparr>on_path = (\<lambda>name. name = str ''devlog''),
      regular_file = (\<lambda>file. file = str ''/home/dev/.config/devlog.json''),
      home = str ''/home/dev''\<rparr>"

definition repository :: "(jsstring \<rightharpoonup> node) \<Rightarrow> state" where
  "repository hooks = initial (hooks(hooksDir \<mapsto> Dir)) []"

text \<open>The four documented fields, the other properties of an object, and the object
  \<open>configure\<close> saves after the answers \<open>a1\<close> to \<open>a4\<close>.\<close>

definition documented :: "jsstring list" where
  "documented = [str ''apiKey'', str ''apiBaseUrl'', str ''includeCommitHash'', str ''includeDate'']"

definition extra_fields :: "(jsstring \<times> json) list \<Rightarrow> (jsstring \<times> json) list" where
  "extra_fields kvs = filter (\<lambda>(k, v). k \<notin> set documented) kvs"

definition configured_object ::
  "(jsstring \<times> json) list \<Rightarrow> jsstring \<Rightarrow> jsstring \<Rightarrow> jsstring \<Rightarrow> jsstring \<Rightarrow> (jsstring \<times> json) list" where
  "configured_object kvs a1 a2 a3 a4 =
     (let k1 = (if trim a1 \<noteq> [] then assign kvs (str ''apiKey'') (JStr (trim a1)) else kvs);
          current = (if truthy (map_of k1 (str ''apiBaseUrl'')) then the (map_of k1 (str ''apiBaseUrl''))
                     else JStr defaultApiBaseUrl);
          k2 = assign k1 (str ''apiBaseUrl'') (if trim a2 \<noteq> [] then JStr (trim a2) else current);
          k3 = assign k2 (str ''includeCommitHash'') (JBool (trim a3 \<noteq> str ''n''))
      in assign k3 (str ''includeDate'') (JBool (trim a4 \<noteq> str ''n'')))"

section \<open>Basic facts\<close>

lemmas io_defs = ret_def throw_def process_exit_def bind_def try_catch_def lift_def
  console_log_def console_error_def console_error2_def

lemma ch_inj: "ch a = ch b \<longleftrightarrow> a = b"
proof
  assume h: "ch a = ch b"
  have "take_bit 16 (of_char a :: nat) = take_bit 16 (of_char b :: nat)"
    using h by (simp add: ch_def word_of_nat_eq_iff)
  moreover have "of_char a < (2 ^ 16 :: nat)"
    by (rule less_trans [OF nat_of_char_less_256]) simp
  moreover have "of_char b < (2 ^ 16 :: nat)"
    by (rule less_trans [OF nat_of_char_less_256]) simp
  ultimately have "of_char a = (of_char b :: nat)"
    by (simp add: take_bit_nat_eq_self)
  thus "a = b" by simp
qed simp

lemma str_inj [simp]: "str a = str b \<longleftrightarrow> a = b"
  unfolding str_def by (simp add: inj_on_def ch_inj inj_map_eq_map)

lemma str_Nil [simp]: "str a = [] \<longleftrightarrow> a = []" "[] = str a \<longleftrightarrow> a = []"
  unfolding str_def by auto

lemma str_append: "str (a @ b) = str a @ str b"
  by (simp add: str_def)

lemma get_prop_eq:
  "v \<noteq> JNull \<Longrightarrow> get_prop v k s = (Return (lookup v k), s)"
  by (cases v) (simp_all add: get_prop_def lookup_def io_defs)

lemma truthy_not_null: "truthy (Some v) \<Longrightarrow> v \<noteq> JNull"
  by (cases v) simp_all

subsection \<open>Configuration store\<close>

lemma loadConfig_eq:
  "loadConfig env s =
     (case files s (configPath env) of
        None \<Rightarrow> (Return (JObj []), s)
      | Some Dir \<Rightarrow>
          (Return (JObj []), s\<lparr>console := console s @
             [(Stderr, str ''Error reading config:'' @ str '' ''
                       @ str ''EISDIR: illegal operation on a directory, read'')]\<rparr>)
      | Some (File c m) \<Rightarrow>
          (case json_parse env c of
             Inl e \<Rightarrow> (Return (JObj []), s\<lparr>console := console s @
                         [(Stderr, str ''Error reading config:'' @ str '' '' @ e)]\<rparr>)
           | Inr v \<Rightarrow> (Return v, s)))"
  by (simp add: loadConfig_def existsSync_def readFileSync_def io_defs
      split: option.splits node.splits sum.splits)

text \<open>
  C5. Loading the configuration when the file is absent, or present with a text that
  \<open>JSON.parse\<close> rejects, returns the empty object \<open>{}\<close>: in the first case nothing else
  happens, in the second the only effect is one line on standard error. In every state
  of the file system \<open>loadConfig\<close> returns a value (it neither throws nor ends the
  process) and leaves the files as they were.
\<close>

theorem loadConfig_missing_or_invalid:
  "(files s (configPath env) = None \<longrightarrow> loadConfig env s = (Return (JObj []), s))
   \<and> (files s (configPath env) = Some (File c m) \<and> json_parse env c = Inl e \<longrightarrow>
        loadConfig env s =
          (Return (JObj []),
           s\<lparr>console := console s @ [(Stderr, str ''Error reading config:'' @ str '' '' @ e)]\<rparr>))
   \<and> (\<exists>v s'. loadConfig env s = (Return v, s') \<and> files s' = files s
         \<and> requests s' = requests s \<and> git_calls s' = git_calls s)"
  by (auto simp add: loadConfig_eq split: option.splits node.splits sum.splits)

theorem loadConfig_missing_or_invalid_witness:
  "loadConfig example_env (initial Map.empty []) = (Return (JObj []), initial Map.empty [])
   \<and> loadConfig example_env (configured (str ''{broken''))
       = (Return (JObj []),
          (configured (str ''{broken''))
            \<lparr>console := [(Stderr, str ''Error reading config:'' @ str '' ''
                                    @ str ''Unexpected end of JSON input'')]\<rparr>)"
proof -
  have absent: "files (initial Map.empty []) (configPath example_env) = None"
    by (simp add: initial_def)
  have present: "files (configured (str ''{broken'')) (configPath example_env)
      = Some (File (str ''{broken'') mode_644)"
    by (simp add: configured_def initial_def)
  have invalid: "json_parse example_env (str ''{broken'') = Inl (str ''Unexpected end of JSON input'')"
    by (simp add: example_env_def example_parse_def example_config_text_def
        plain_config_text_def team_config_text_def ok_body_def)
  have c: "console (configured (str ''{broken'')) = []"
    by (simp add: configured_def initial_def)
  from loadConfig_missing_or_invalid [of "initial Map.empty []" example_env]
    loadConfig_missing_or_invalid [of "configured (str ''{broken'')" example_env "str ''{broken''" mode_644
      "str ''Unexpected end of JSON input''"]
  show ?thesis using absent present invalid c by simp
qed

subsection \<open>Git inspector and entry formatter\<close>

lemma execSync_eq:
  "execSync env cmd s =
     (case git env cmd of
        Inl e \<Rightarrow> (Throw e, s\<lparr>git_calls := git_calls s @ [cmd]\<rparr>)
      | Inr out \<Rightarrow> (Return out, s\<lparr>git_calls := git_calls s @ [cmd]\<rparr>))"
  by (simp add: execSync_def io_defs split: sum.splits)

lemma getLastCommitHash_eq:
  "getLastCommitHash env s = (Return (hash_of env), s\<lparr>git_calls := git_calls s @ [git_log_hash]\<rparr>)"
  by (simp add: getLastCommitHash_def execSync_eq hash_of_def io_defs split: sum.splits)

lemma formatLogEntry_eq:
  "config \<noteq> JNull \<Longrightarrow>
   formatLogEntry env m config s =
     (Return (entry_of env config m),
      s\<lparr>git_calls := git_calls s
            @ (if truthy (lookup config ''includeCommitHash'') then [git_log_hash] else [])\<rparr>)"
  by (simp add: formatLogEntry_def get_prop_eq getLastCommitHash_eq entry_of_def given_def io_defs
      split: option.splits)

text \<open>
  C6. With \<open>includeCommitHash\<close> set (any truthy value, \<open>true\<close> among them) and a hash
  that \<open>git\<close> gives, \<open>formatLogEntry\<close> returns \<open>[\<close>, the first 8 code units of the trimmed
  output of \<open>git log -1 --pretty=%H\<close>, \<open>] \<close> and the message; with \<open>includeCommitHash\<close>
  unset (\<open>false\<close> among the falsy values) it returns the message with no call of \<open>git\<close>, and
  when \<open>git\<close> fails it returns the message as well.
\<close>

theorem formatLogEntry_hash_prefix:
  "(truthy (map_of kvs (str ''includeCommitHash'')) \<and> git env git_log_hash = Inr out \<and> trim out \<noteq> [] \<longrightarrow>
      fst (formatLogEntry env m (JObj kvs) s) = Return (str ''['' @ take 8 (trim out) @ str ''] '' @ m))
   \<and> (\<not> truthy (map_of kvs (str ''includeCommitHash'')) \<longrightarrow>
      formatLogEntry env m (JObj kvs) s = (Return m, s))
   \<and> (truthy (map_of kvs (str ''includeCommitHash'')) \<and> git env git_log_hash = Inl e \<longrightarrow>
      fst (formatLogEntry env m (JObj kvs) s) = Return m)"
  by (simp add: formatLogEntry_eq entry_of_def hash_of_def lookup_def given_def substring0_def)

theorem formatLogEntry_hash_prefix_witness:
  "fst (formatLogEntry example_env (str ''Fix bug'') (JObj example_config) (initial Map.empty []))
     = Return (str ''[abcdef12] Fix bug'')
   \<and> formatLogEntry example_env (str ''Fix bug'') (JObj plain_config) (initial Map.empty [])
     = (Return (str ''Fix bug''), initial Map.empty [])
   \<and> fst (formatLogEntry no_git_env (str ''Fix bug'') (JObj example_config) (initial Map.empty []))
     = Return (str ''Fix bug'')"
proof -
  have on: "truthy (map_of example_config (str ''includeCommitHash''))"
    by (simp add: example_config_def)
  have off: "\<not> truthy (map_of plain_config (str ''includeCommitHash''))"
    by (simp add: plain_config_def)
  have hash: "git example_env git_log_hash = Inr (str ''abcdef1234567890\<newline>'')"
    by (simp add: example_env_def example_git_def)
  have full: "trim (str ''abcdef1234567890\<newline>'') = str ''abcdef1234567890''"
    by code_simp
  have short: "str ''['' @ take 8 (str ''abcdef1234567890'') @ str ''] '' @ str ''Fix bug''
      = str ''[abcdef12] Fix bug''"
    by (simp add: str_def)
  have none: "git no_git_env git_log_hash = Inl (str ''Command failed'')"
    by (simp add: no_git_env_def)
  from formatLogEntry_hash_prefix [of example_config example_env "str ''abcdef1234567890\<newline>''"
      "str ''Fix bug''" "initial Map.empty []"]
    formatLogEntry_hash_prefix [of plain_config example_env _ "str ''Fix bug''" "initial Map.empty []"]
    formatLogEntry_hash_prefix [of example_config no_git_env _ "str ''Fix bug''" "initial Map.empty []"
      "str ''Command failed''"]
  show ?thesis using on off hash full short none by simp
qed

subsection \<open>The log function, step by step\<close>

lemma postToApi_eq:
  "config \<noteq> JNull \<Longrightarrow> import_fetch env = None \<Longrightarrow>
   postToApi env text date config s =
     (case fetch env (post_request text date config) of
        Rejected e \<Rightarrow>
          (Exit 1, s\<lparr>console := console s @ [api_error e],
                     requests := requests s @ [post_request text date config]\<rparr>)
      | Response st stt b \<Rightarrow>
          if 200 \<le> st \<and> st \<le> 299 then
            (case json_parse env b of
               Inl e \<Rightarrow>
                 (Exit 1, s\<lparr>console := console s @ [api_error e],
                     requests := requests s @ [post_request text date config]\<rparr>)
             | Inr data \<Rightarrow> (Return data, s\<lparr>requests := requests s @ [post_request text date config]\<rparr>))
          else
            (Exit 1, s\<lparr>console := console s @ [api_error (failed_message st stt b)],
                     requests := requests s @ [post_request text date config]\<rparr>))"
  by (simp add: postToApi_def get_prop_eq do_fetch_def ok_def post_request_def io_defs
      api_error_def failed_message_def split: fetch_result.splits sum.splits)

lemma log_send_no_import:
  "import_fetch env = Some e \<Longrightarrow>
   log_send env text date config s = (Throw e, s\<lparr>console := console s @ [failed_line]\<rparr>)"
  by (simp add: log_send_def postToApi_def io_defs failed_line_def)

lemma log_send_eq:
  "config \<noteq> JNull \<Longrightarrow> import_fetch env = None \<Longrightarrow>
   log_send env text date config s =
     (case fetch env (post_request text date config) of
        Rejected e \<Rightarrow>
          (Exit 1, s\<lparr>console := console s @ [api_error e],
                     requests := requests s @ [post_request text date config]\<rparr>)
      | Response st stt b \<Rightarrow>
          if 200 \<le> st \<and> st \<le> 299 then
            (case json_parse env b of
               Inl e \<Rightarrow>
                 (Exit 1, s\<lparr>console := console s @ [api_error e],
                     requests := requests s @ [post_request text date config]\<rparr>)
             | Inr data \<Rightarrow>
                 (Return (), s\<lparr>console := console s @ [(Stdout, success_line)] @ response_lines data,
                     requests := requests s @ [post_request text date config]\<rparr>))
          else
            (Exit 1, s\<lparr>console := console s @ [api_error (failed_message st stt b)],
                     requests := requests s @ [post_request text date config]\<rparr>))"
  by (auto simp add: log_send_def postToApi_eq get_prop_eq truthy_not_null response_lines_def io_defs
      split: fetch_result.splits sum.splits)

lemma log_send_effects:
  "config \<noteq> JNull \<Longrightarrow> import_fetch env = None \<Longrightarrow>
   requests (snd (log_send env text date config s)) = requests s @ [post_request text date config]
   \<and> git_calls (snd (log_send env text date config s)) = git_calls s"
  by (simp add: log_send_eq split: fetch_result.splits sum.splits)

lemma loadConfig_returns:
  "\<exists>config pre. loadConfig env s = (Return config, s\<lparr>console := console s @ pre\<rparr>)
     \<and> Stdout \<notin> fst ` set pre"
proof (cases "files s (configPath env)")
  case None
  hence "loadConfig env s = (Return (JObj []), s\<lparr>console := console s @ []\<rparr>)"
    by (simp add: loadConfig_eq)
  thus ?thesis by (intro exI [of _ "JObj []"] exI [of _ "[]"]) simp
next
  case (Some n)
  show ?thesis
  proof (cases n)
    case Dir
    with Some show ?thesis by (simp add: loadConfig_eq) (rule exI [of _ "[(Stderr, _)]"], simp)
  next
    case (File c m)
    show ?thesis
    proof (cases "json_parse env c")
      case (Inl e)
      with Some File show ?thesis
        by (simp add: loadConfig_eq) (rule exI [of _ "[(Stderr, _)]"], simp)
    next
      case (Inr v)
      with Some File have "loadConfig env s = (Return v, s\<lparr>console := console s @ []\<rparr>)"
        by (simp add: loadConfig_eq)
      thus ?thesis by (intro exI [of _ v] exI [of _ "[]"]) simp
    qed
  qed
qed

lemma loadConfig_file:
  "files s (configPath env) = Some (File c m) \<Longrightarrow> json_parse env c = Inr v \<Longrightarrow>
   loadConfig env s = (Return v, s)"
  by (simp add: loadConfig_eq)

lemma log_custom_eq:
  assumes "loadConfig env s = (Return config, s0)" "config \<noteq> JNull"
    "truthy (lookup config ''apiKey'')" "given cm"
  shows "log env cm cd s =
     log_send env (entry_of env config (the cm)) (date_of env config cd) config
       (s0\<lparr>git_calls := git_calls s0
              @ (if truthy (lookup config ''includeCommitHash'') then [git_log_hash] else []),
           console := console s0 @ announce (entry_of env config (the cm)) (date_of env config cd)\<rparr>)"
  using assms
  by (simp add: log_def get_prop_eq formatLogEntry_eq date_of_def announce_def io_defs)

lemma log_commit_eq:
  assumes "loadConfig env s = (Return config, s0)" "config \<noteq> JNull"
    "truthy (lookup config ''apiKey'')" "\<not> given cm" "git env git_log_message = Inr out"
  shows "log env cm cd s =
     log_send env (entry_of env config (trim out)) (date_of env config cd) config
       (s0\<lparr>git_calls := git_calls s0 @ [git_log_message]
              @ (if truthy (lookup config ''includeCommitHash'') then [git_log_hash] else []),
           console := console s0 @ announce (entry_of env config (trim out)) (date_of env config cd)\<rparr>)"
  using assms
  by (simp add: log_def get_prop_eq formatLogEntry_eq getLastCommitMessage_def execSync_eq
      date_of_def announce_def io_defs)

lemma log_stops:
  assumes "loadConfig env s = (Return config, s0)"
    and "config = JNull \<or> \<not> truthy (lookup config ''apiKey'')
         \<or> (\<not> given cm \<and> (\<exists>e. git env git_log_message = Inl e))"
  shows "requests (snd (log env cm cd s)) = requests s0"
  using assms
  apply (cases "config = JNull")
   apply (simp add: log_def get_prop_def io_defs)
  apply (cases "truthy (lookup config ''apiKey'')")
   apply (auto simp add: log_def get_prop_eq getLastCommitMessage_def execSync_eq io_defs)
  done

lemma log_sent:
  assumes sent: "requests (snd (log env cm cd s)) = requests s @ [r]"
  shows "\<exists>config E s1 pre. config \<noteq> JNull \<and> import_fetch env = None
     \<and> fst (loadConfig env s) = Return config
     \<and> log env cm cd s = log_send env E (date_of env config cd) config s1
     \<and> requests s1 = requests s
     \<and> console s1 = console s @ pre @ announce E (date_of env config cd)
     \<and> Stdout \<notin> fst ` set pre"
proof -
  obtain config pre where lc: "loadConfig env s = (Return config, s\<lparr>console := console s @ pre\<rparr>)"
    and pre: "Stdout \<notin> fst ` set pre"
    using loadConfig_returns by blast
  let ?s0 = "s\<lparr>console := console s @ pre\<rparr>"
  have go: "\<not> (config = JNull \<or> \<not> truthy (lookup config ''apiKey'')
         \<or> (\<not> given cm \<and> (\<exists>e. git env git_log_message = Inl e)))"
  proof
    assume "config = JNull \<or> \<not> truthy (lookup config ''apiKey'')
         \<or> (\<not> given cm \<and> (\<exists>e. git env git_log_message = Inl e))"
    from log_stops [OF lc this, of cd] sent show False by simp
  qed
  hence nn: "config \<noteq> JNull" and key: "truthy (lookup config ''apiKey'')" by auto
  have "\<exists>E gc. log env cm cd s = log_send env E (date_of env config cd) config
          (?s0\<lparr>git_calls := gc, console := console ?s0 @ announce E (date_of env config cd)\<rparr>)"
  proof (cases "given cm")
    case True
    from log_custom_eq [OF lc nn key True] show ?thesis by blast
  next
    case False
    with go obtain out where "git env git_log_message = Inr out"
      by (cases "git env git_log_message") auto
    from log_commit_eq [OF lc nn key False this] show ?thesis by blast
  qed
  then obtain E gc where run: "log env cm cd s = log_send env E (date_of env config cd) config
          (?s0\<lparr>git_calls := gc, console := console ?s0 @ announce E (date_of env config cd)\<rparr>)"
    by blast
  have imp: "import_fetch env = None"
  proof (cases "import_fetch env")
    case (Some e)
    from sent show ?thesis by (simp add: run log_send_no_import [OF Some])
  qed simp
  show ?thesis
    apply (rule exI [of _ config], rule exI [of _ E])
    apply (rule exI [of _ "?s0\<lparr>git_calls := gc, console := console ?s0 @ announce E (date_of env config cd)\<rparr>"])
    apply (rule exI [of _ pre])
    using nn imp lc run pre by simp
qed

subsection \<open>The date\<close>

lemma unat_digit: "d < 10 \<Longrightarrow> unat (digit d) = 48 + d"
  unfolding digit_def by (subst unat_of_nat) simp

lemma unat_ch: "unat (ch c) = of_char c"
proof -
  have "of_char c < (2 ^ 16 :: nat)"
    by (rule less_trans [OF nat_of_char_less_256]) simp
  thus ?thesis by (simp add: ch_def unat_of_nat)
qed

lemma digit_not_T: "d < 10 \<Longrightarrow> digit d \<noteq> ch CHR ''T''"
proof
  assume "d < 10" "digit d = ch CHR ''T''"
  hence "48 + d = (of_char CHR ''T'' :: nat)" using unat_digit unat_ch by metis
  with \<open>d < 10\<close> show False by simp
qed

lemma dec_not_T: "c \<in> set (dec n) \<Longrightarrow> c \<noteq> ch CHR ''T''"
proof (induction n rule: dec.induct)
  case (1 n)
  show ?case
  proof (cases "n < 10")
    case True
    with 1(2) show ?thesis by (simp add: dec.simps digit_not_T)
  next
    case False
    with 1(2) have "c \<in> set (dec (n div 10)) \<or> c = digit (n mod 10)"
      by (subst (asm) dec.simps) auto
    thus ?thesis using 1(1) [OF False] digit_not_T [of "n mod 10"] by auto
  qed
qed

lemma pad_not_T: "c \<in> set (pad w n) \<Longrightarrow> c \<noteq> ch CHR ''T''"
  using digit_not_T [of 0] by (auto simp add: pad_def Let_def dest: dec_not_T)

lemma iso_year_not_T: "c \<in> set (iso_year y) \<Longrightarrow> c \<noteq> ch CHR ''T''"
  by (auto simp add: iso_year_def str_def ch_inj dest: pad_not_T split: if_splits)

lemma iso_date_not_T: "c \<in> set (iso_date t) \<Longrightarrow> c \<noteq> ch CHR ''T''"
  by (auto simp add: iso_date_def str_def ch_inj dest: pad_not_T iso_year_not_T split: prod.splits)

lemma getCurrentDate_eq: "getCurrentDate env = iso_date (now env)"
proof -
  have "takeWhile (\<lambda>c. c \<noteq> ch CHR ''T'') (iso_date (now env) @ (str ''T'' @ iso_time (now env) @ str ''Z''))
      = iso_date (now env) @ takeWhile (\<lambda>c. c \<noteq> ch CHR ''T'') (str ''T'' @ iso_time (now env) @ str ''Z'')"
    by (rule takeWhile_append2) (rule iso_date_not_T)
  thus ?thesis by (simp add: getCurrentDate_def toISOString_def str_def)
qed

subsection \<open>What log prints before the call\<close>

lemma announce_no_success: "(Stdout, success_line) \<notin> set (announce E D)"
  by (simp add: announce_def success_line_def check_mark_def str_def ch_def)

lemma run_log_message_date: "run env [str ''log'', m, d] = log env (Some m) (Some d)"
  by (simp add: run_def)

lemma log_custom_effects:
  assumes "files s (configPath env) = Some (File c md)" "json_parse env c = Inr (JObj kvs)"
    "truthy (map_of kvs (str ''apiKey''))" "import_fetch env = None" "m \<noteq> []"
  shows "requests (snd (log env (Some m) cd s))
           = requests s @ [post_request (entry_of env (JObj kvs) m) (date_of env (JObj kvs) cd) (JObj kvs)]
     \<and> git_calls (snd (log env (Some m) cd s))
           = git_calls s @ (if truthy (map_of kvs (str ''includeCommitHash'')) then [git_log_hash] else [])"
proof -
  have lc: "loadConfig env s = (Return (JObj kvs), s)"
    using assms(1,2) by (rule loadConfig_file)
  have key: "truthy (lookup (JObj kvs) ''apiKey'')" using assms(3) by (simp add: lookup_def)
  have g: "given (Some m)" using assms(5) by (simp add: given_def)
  have nn: "JObj kvs \<noteq> JNull" by simp
  show ?thesis
    by (simp add: log_custom_eq [OF lc nn key g] log_send_effects [OF nn assms(4)] lookup_def)
qed

text \<open>
  C1, as the code has it. \<open>log "Manual note" 2025-01-01\<close>, run with a configuration that
  holds an API key and with \<open>node-fetch\<close> loadable, sends one request whose date is
  \<open>2025-01-01\<close> and never asks \<open>git\<close> for the commit message. When \<open>includeCommitHash\<close> is
  not set, \<open>git\<close> is not called at all and the text is \<open>Manual note\<close>. When it is set, \<open>git\<close>
  is called once, for the hash, and the text is \<open>[\<close>, the first 8 code units of the hash,
  \<open>] Manual note\<close> when a hash comes back, \<open>Manual note\<close> when none does.
\<close>

theorem manual_note_entry:
  assumes "files s (configPath env) = Some (File c md)" "json_parse env c = Inr (JObj kvs)"
    and "truthy (map_of kvs (str ''apiKey''))" and "import_fetch env = None"
  shows "(\<not> truthy (map_of kvs (str ''includeCommitHash'')) \<longrightarrow>
            git_calls (manual_note_run env s) = git_calls s
            \<and> (\<exists>r. requests (manual_note_run env s) = requests s @ [r]
                  \<and> body_text r = str ''Manual note'' \<and> body_date r = Some (str ''2025-01-01'')))
       \<and> (truthy (map_of kvs (str ''includeCommitHash'')) \<longrightarrow>
            git_calls (manual_note_run env s) = git_calls s @ [git_log_hash]
            \<and> (\<exists>r. requests (manual_note_run env s) = requests s @ [r]
                  \<and> body_date r = Some (str ''2025-01-01'')
                  \<and> body_text r =
                      (case git env git_log_hash of
                         Inl e \<Rightarrow> str ''Manual note''
                       | Inr out \<Rightarrow>
                           if take 8 (trim out) = [] then str ''Manual note''
                           else str ''['' @ take 8 (trim out) @ str ''] '' @ str ''Manual note'')))"
proof -
  have m: "str ''Manual note'' \<noteq> []" and d: "given (Some (str ''2025-01-01''))"
    by (simp_all add: given_def)
  from log_custom_effects [OF assms m, of "Some (str ''2025-01-01'')"] d
  show ?thesis
    by (auto simp add: run_log_message_date post_request_def date_of_def entry_of_def lookup_def
        hash_of_def given_def substring0_def split: sum.splits)
qed

theorem manual_note_entry_witness:
  "git_calls (manual_note_run example_env (configured plain_config_text)) = []
   \<and> (\<exists>r. requests (manual_note_run example_env (configured plain_config_text)) = [r]
         \<and> body_text r = str ''Manual note'' \<and> body_date r = Some (str ''2025-01-01''))"
proof -
  have f: "files (configured plain_config_text) (configPath example_env)
      = Some (File plain_config_text mode_644)"
    by (simp add: configured_def initial_def)
  have p: "json_parse example_env plain_config_text = Inr (JObj plain_config)"
    by (simp add: example_env_def example_parse_def example_config_text_def plain_config_text_def)
  have k: "truthy (map_of plain_config (str ''apiKey''))"
    by (simp add: plain_config_def)
  have i: "import_fetch example_env = None"
    by (simp add: example_env_def)
  have off: "\<not> truthy (map_of plain_config (str ''includeCommitHash''))"
    by (simp add: plain_config_def)
  have e: "git_calls (configured plain_config_text) = []" "requests (configured plain_config_text) = []"
    by (simp_all add: configured_def initial_def)
  from manual_note_entry [OF f p k i] off e show ?thesis by simp
qed

theorem manual_note_counterexample:
  "git_calls (manual_note_run example_env (configured example_config_text)) = [git_log_hash]
   \<and> map body_text (requests (manual_note_run example_env (configured example_config_text)))
       = [str ''[abcdef12] Manual note'']"
  by code_simp

text \<open>
  C2, as the code has it. Whenever \<open>log\<close> sends a request: with no explicit date (or
  the empty string for one) and \<open>includeDate\<close> set, the date sent is the UTC calendar date
  of the instant, \<open>YYYY-MM-DD\<close>; with a non-empty explicit date, the date sent is that
  argument, whatever the instant and \<open>includeDate\<close> are.
\<close>

theorem log_date_sent:
  assumes "loadConfig env s = (Return config, s0)"
    and "requests (snd (log env cm cd s)) = requests s @ [r]"
  shows "(given cd \<longrightarrow> body_date r = cd)
       \<and> (\<not> given cd \<and> truthy (lookup config ''includeDate'') \<longrightarrow>
            body_date r = Some (iso_date (now env)))"
proof -
  from log_sent [OF assms(2)] obtain config' E s1 where
    nn: "config' \<noteq> JNull" and imp: "import_fetch env = None"
    and lc: "fst (loadConfig env s) = Return config'"
    and run: "log env cm cd s = log_send env E (date_of env config' cd) config' s1"
    and rq: "requests s1 = requests s"
    by blast
  from lc assms(1) have same: "config' = config" by simp
  from log_send_effects [OF nn imp, of E "date_of env config' cd" s1] run rq assms(2)
  have "r = post_request E (date_of env config cd) config" using same by simp
  thus ?thesis by (simp add: post_request_def date_of_def getCurrentDate_eq)
qed

theorem log_date_sent_witness:
  "(\<exists>r. requests (snd (log example_env None None (configured example_config_text))) = [r]
        \<and> body_date r = Some (iso_date (now example_env)))
   \<and> iso_date (now example_env) = str ''2025-01-01''
   \<and> (\<exists>r. requests (snd (log example_env (Some (str ''Attended team meeting''))
                 (Some (str ''2025-06-23'')) (configured plain_config_text))) = [r]
        \<and> body_date r = Some (str ''2025-06-23''))"
proof -
  let ?s = "configured example_config_text" and ?t = "configured plain_config_text"
  have lc: "loadConfig example_env ?s = (Return (JObj example_config), ?s)"
    by (rule loadConfig_file [where c = example_config_text and m = mode_644])
      (simp_all add: configured_def initial_def example_env_def example_parse_def)
  have lt: "loadConfig example_env ?t = (Return (JObj plain_config), ?t)"
    by (rule loadConfig_file [where c = plain_config_text and m = mode_644])
      (simp_all add: configured_def initial_def example_env_def example_parse_def
        example_config_text_def plain_config_text_def)
  have ks: "truthy (lookup (JObj example_config) ''apiKey'')"
    and ds: "truthy (lookup (JObj example_config) ''includeDate'')"
    and kt: "truthy (lookup (JObj plain_config) ''apiKey'')"
    by (simp_all add: lookup_def example_config_def plain_config_def)
  have msg: "git example_env git_log_message = Inr (str ''Fix bug\<newline>'')"
    by (simp add: example_env_def example_git_def git_log_message_def git_log_hash_def)
  have imp: "import_fetch example_env = None" by (simp add: example_env_def)
  have n: "\<not> given None" and g: "given (Some (str ''Attended team meeting''))"
    and gd: "given (Some (str ''2025-06-23''))"
    by (simp_all add: given_def)
  have e: "requests ?s = []" "requests ?t = []" by (simp_all add: configured_def initial_def)
  have sent: "requests (snd (log example_env None None ?s)) = requests ?s
      @ [post_request (entry_of example_env (JObj example_config) (trim (str ''Fix bug\<newline>'')))
           (date_of example_env (JObj example_config) None) (JObj example_config)]"
    by (simp add: log_commit_eq [OF lc _ ks n msg] log_send_effects imp)
  have sent': "requests (snd (log example_env (Some (str ''Attended team meeting''))
      (Some (str ''2025-06-23'')) ?t)) = requests ?t
      @ [post_request (entry_of example_env (JObj plain_config) (str ''Attended team meeting''))
           (date_of example_env (JObj plain_config) (Some (str ''2025-06-23''))) (JObj plain_config)]"
    by (simp add: log_custom_eq [OF lt _ kt g] log_send_effects imp)
  have today: "iso_date (now example_env) = str ''2025-01-01''" by code_simp
  from log_date_sent [OF lc sent] log_date_sent [OF lt sent'] n gd ds today sent sent' e
  show ?thesis by simp
qed

theorem log_date_counterexample:
  "map body_date (requests (snd (log example_env None None (configured example_config_text))))
     = [Some (str ''2025-01-01'')]
   \<and> local_date example_env = str ''2025-01-02''
   \<and> map body_date (requests (snd (log example_env (Some (str ''Manual note'')) (Some [])
                                   (configured plain_config_text))))
     = [None]"
  by code_simp


text \<open>
  C4. Whenever \<open>log\<close> has sent its request and the answer is a response whose status is
  not in 200 to 299, the process exits with status 1; the last thing written is, on
  standard error, \<open>Error posting to API: API request failed: \<close> with the status code, the
  status text and, on the next line, the body of the response; and the line of success is
  not among what the run has written.
\<close>

theorem non_2xx_is_fatal:
  assumes "requests (snd (log env cm cd s)) = requests s @ [r]"
    and "fetch env r = Response st stt b"
    and "st < 200 \<or> 299 < st"
  shows "fst (log env cm cd s) = Exit 1
       \<and> last (console (snd (log env cm cd s)))
           = (Stderr, str ''Error posting to API: API request failed: '' @ dec st @ str '' '' @ stt
                      @ str ''\<newline>'' @ b)
       \<and> (Stdout, success_line) \<notin> set (printed s (snd (log env cm cd s)))"
proof -
  from log_sent [OF assms(1)] obtain config E s1 pre where
    nn: "config \<noteq> JNull" and imp: "import_fetch env = None"
    and run: "log env cm cd s = log_send env E (date_of env config cd) config s1"
    and rq: "requests s1 = requests s"
    and con: "console s1 = console s @ pre @ announce E (date_of env config cd)"
    and pre: "Stdout \<notin> fst ` set pre"
    by blast
  let ?D = "date_of env config cd"
  from log_send_effects [OF nn imp, of E ?D s1] run rq assms(1)
  have r: "post_request E ?D config = r" by simp
  have res: "log env cm cd s =
      (Exit 1, s1\<lparr>console := console s1 @ [api_error (failed_message st stt b)],
                  requests := requests s1 @ [r]\<rparr>)"
    using assms(3) by (auto simp add: run log_send_eq [OF nn imp] r assms(2))
  have shown: "api_error (failed_message st stt b)
      = (Stderr, str ''Error posting to API: API request failed: '' @ dec st @ str '' '' @ stt
                 @ str ''\<newline>'' @ b)"
    by (simp add: api_error_def failed_message_def str_def)
  have quiet: "(Stdout, success_line) \<notin> set pre" using pre by force
  have "printed s (snd (log env cm cd s)) = pre @ announce E ?D @ [api_error (failed_message st stt b)]"
    by (simp add: res printed_def con)
  with quiet announce_no_success [of E ?D] have "(Stdout, success_line) \<notin> set (printed s (snd (log env cm cd s)))"
    by (simp add: api_error_def)
  thus ?thesis by (simp add: res shown [symmetric])
qed

theorem non_2xx_is_fatal_witness:
  "fetch refusing_env (post_request (str ''Manual note'') None (JObj plain_config))
      = Response 401 (str ''Unauthorized'') (str ''bad key'')
   \<and> fst (log refusing_env (Some (str ''Manual note'')) None (configured plain_config_text)) = Exit 1
   \<and> last (console (snd (log refusing_env (Some (str ''Manual note'')) None (configured plain_config_text))))
       = (Stderr, str ''Error posting to API: API request failed: 401 Unauthorized\<newline>bad key'')
   \<and> (Stdout, success_line) \<notin> set (printed (configured plain_config_text)
         (snd (log refusing_env (Some (str ''Manual note'')) None (configured plain_config_text))))"
proof -
  let ?t = "configured plain_config_text"
  have f: "files ?t (configPath refusing_env) = Some (File plain_config_text mode_644)"
    by (simp add: configured_def initial_def refusing_env_def configPath_def example_env_def)
  have p: "json_parse refusing_env plain_config_text = Inr (JObj plain_config)"
    by (simp add: refusing_env_def example_env_def example_parse_def example_config_text_def
        plain_config_text_def)
  have k: "truthy (map_of plain_config (str ''apiKey''))" by (simp add: plain_config_def)
  have i: "import_fetch refusing_env = None" by (simp add: refusing_env_def example_env_def)
  have m: "str ''Manual note'' \<noteq> []" by simp
  have entry: "entry_of refusing_env (JObj plain_config) (str ''Manual note'') = str ''Manual note''"
    by (simp add: entry_of_def lookup_def plain_config_def)
  have date: "date_of refusing_env (JObj plain_config) None = None"
    by (simp add: date_of_def lookup_def plain_config_def given_def)
  have sent: "requests (snd (log refusing_env (Some (str ''Manual note'')) None ?t))
      = requests ?t @ [post_request (str ''Manual note'') None (JObj plain_config)]"
    using log_custom_effects [OF f p k i m, of None] by (simp add: entry date)
  have resp: "fetch refusing_env (post_request (str ''Manual note'') None (JObj plain_config))
      = Response 401 (str ''Unauthorized'') (str ''bad key'')"
    by (simp add: refusing_env_def)
  have code: "dec 401 = str ''401''" by code_simp
  have line: "str ''Error posting to API: API request failed: '' @ str ''401'' @ str '' ''
      @ str ''Unauthorized'' @ str ''\<newline>'' @ str ''bad key''
      = str ''Error posting to API: API request failed: 401 Unauthorized\<newline>bad key''"
    by (simp add: str_def)
  from non_2xx_is_fatal [OF sent resp] resp code line show ?thesis by simp
qed

text \<open>
  C9, as the code has it. For \<open>log <message> <date>\<close> with a date that is not the empty
  string, the date of any request sent is that string, unchanged and unchecked; and with a
  configuration that holds an API key, \<open>node-fetch\<close> loadable and a message that is not
  empty, a request is sent, whatever the date string is.
\<close>

theorem explicit_date_forwarded:
  assumes "d \<noteq> []"
  shows "(requests (snd (run env [str ''log'', m, d] s)) = requests s @ [r] \<longrightarrow> body_date r = Some d)
       \<and> (files s (configPath env) = Some (File c md) \<and> json_parse env c = Inr (JObj kvs)
          \<and> truthy (map_of kvs (str ''apiKey'')) \<and> import_fetch env = None \<and> m \<noteq> [] \<longrightarrow>
            (\<exists>r'. requests (snd (run env [str ''log'', m, d] s)) = requests s @ [r']
                  \<and> body_date r' = Some d))"
proof (intro conjI impI)
  have g: "given (Some d)" using assms by (simp add: given_def)
  {
    assume sent: "requests (snd (run env [str ''log'', m, d] s)) = requests s @ [r]"
    from log_sent [of env "Some m" "Some d" s r] sent obtain config E s1 where
      nn: "config \<noteq> JNull" and imp: "import_fetch env = None"
      and run: "log env (Some m) (Some d) s = log_send env E (date_of env config (Some d)) config s1"
      and rq: "requests s1 = requests s"
      by (auto simp add: run_log_message_date)
    from log_send_effects [OF nn imp, of E "date_of env config (Some d)" s1] run rq sent
    have "r = post_request E (date_of env config (Some d)) config"
      by (simp add: run_log_message_date)
    thus "body_date r = Some d" using g by (simp add: post_request_def date_of_def)
  }
  {
    assume h: "files s (configPath env) = Some (File c md) \<and> json_parse env c = Inr (JObj kvs)
          \<and> truthy (map_of kvs (str ''apiKey'')) \<and> import_fetch env = None \<and> m \<noteq> []"
    hence "requests (snd (log env (Some m) (Some d) s))
           = requests s @ [post_request (entry_of env (JObj kvs) m) (date_of env (JObj kvs) (Some d)) (JObj kvs)]"
      using log_custom_effects [of s env c md kvs m "Some d"] by simp
    thus "\<exists>r'. requests (snd (run env [str ''log'', m, d] s)) = requests s @ [r'] \<and> body_date r' = Some d"
      using g by (simp add: run_log_message_date post_request_def date_of_def)
  }
qed

theorem explicit_date_forwarded_witness:
  "str ''next tuesday'' \<noteq> []
   \<and> (\<exists>r. requests (snd (run example_env [str ''log'', str ''Manual note'', str ''next tuesday'']
                 (configured example_config_text))) = [r]
         \<and> body_date r = Some (str ''next tuesday''))"
proof -
  let ?s = "configured example_config_text"
  have d: "str ''next tuesday'' \<noteq> []" by simp
  have h: "files ?s (configPath example_env) = Some (File example_config_text mode_644)
      \<and> json_parse example_env example_config_text = Inr (JObj example_config)
      \<and> truthy (map_of example_config (str ''apiKey'')) \<and> import_fetch example_env = None
      \<and> str ''Manual note'' \<noteq> []"
    by (simp add: configured_def initial_def example_env_def example_parse_def example_config_def)
  have e: "requests ?s = []" by (simp add: configured_def initial_def)
  from explicit_date_forwarded [OF d, of example_env "str ''Manual note''" ?s _ example_config_text
      mode_644 example_config] h e d
  show ?thesis by simp
qed

theorem explicit_date_counterexample:
  "map body_date (requests (snd (run example_env [str ''log'', str ''note'', []]
       (configured example_config_text)))) = [Some (str ''2025-01-01'')]
   \<and> Some (str ''2025-01-01'') \<noteq> Some []"
  by code_simp

subsection \<open>Hook installer\<close>

lemma is_prefix_iff: "is_prefix xs ys \<longleftrightarrow> (\<exists>zs. ys = xs @ zs)"
  by (induction xs ys rule: is_prefix.induct) auto

lemma includes_str_iff: "includes_str hay needle \<longleftrightarrow> (\<exists>pre post. hay = pre @ needle @ post)"
proof (induction hay)
  case Nil
  show ?case by auto
next
  case (Cons h hay)
  show ?case
  proof
    assume "includes_str (h # hay) needle"
    hence "is_prefix needle (h # hay) \<or> includes_str hay needle" by simp
    thus "\<exists>pre post. h # hay = pre @ needle @ post"
    proof
      assume "is_prefix needle (h # hay)"
      then obtain zs where "h # hay = needle @ zs" using is_prefix_iff by blast
      hence "h # hay = [] @ needle @ zs" by simp
      thus ?thesis by blast
    next
      assume "includes_str hay needle"
      with Cons obtain pre post where "hay = pre @ needle @ post" by blast
      hence "h # hay = (h # pre) @ needle @ post" by simp
      thus ?thesis by blast
    qed
  next
    assume "\<exists>pre post. h # hay = pre @ needle @ post"
    then obtain pre post where e: "h # hay = pre @ needle @ post" by blast
    show "includes_str (h # hay) needle"
    proof (cases pre)
      case Nil
      with e have "is_prefix needle (h # hay)" using is_prefix_iff by auto
      thus ?thesis by simp
    next
      case (Cons p pre')
      with e have "hay = pre' @ needle @ post" by simp
      with Cons.IH have "includes_str hay needle" by blast
      thus ?thesis by simp
    qed
  qed
qed

lemma dirname_join: "slash \<notin> set b \<Longrightarrow> dirname (path_join a b) = a"
proof -
  assume b: "slash \<notin> set b"
  have "dropWhile (\<lambda>c. c \<noteq> slash) (rev b @ slash # rev a) = dropWhile (\<lambda>c. c \<noteq> slash) (slash # rev a)"
    by (rule dropWhile_append2) (use b in auto)
  thus ?thesis by (simp add: dirname_def path_join_def)
qed

lemma dirname_hookPath: "dirname hookPath = hooksDir"
  unfolding hookPath_def by (rule dirname_join) (simp add: str_def ch_def slash_def)

lemma dirname_backupPath: "dirname backupPath = hooksDir"
  unfolding backupPath_def by (rule dirname_join) (simp add: str_def ch_def slash_def)

lemma hook_paths_differ:
  "hookPath \<noteq> backupPath" "backupPath \<noteq> hookPath" "hooksDir \<noteq> hookPath" "hooksDir \<noteq> backupPath"
  "hookPath \<noteq> hooksDir" "backupPath \<noteq> hooksDir"
  by (simp_all add: hookPath_def backupPath_def path_join_def)

lemma isGitRepository_eq:
  "isGitRepository env s =
     (Return (case git env git_rev_parse of Inl e \<Rightarrow> False | Inr out \<Rightarrow> True),
      s\<lparr>git_calls := git_calls s @ [git_rev_parse]\<rparr>)"
  by (simp add: isGitRepository_def execSync_eq io_defs split: sum.splits)

lemma installHook_keeps:
  "files s hookPath \<noteq> None \<Longrightarrow> files (snd (installHook env s)) = files s"
  by (auto simp add: installHook_def isGitRepository_eq existsSync_def readFileSync_def
      not_a_repository_def no_hooks_directory_def not_integrated_lines_def io_defs
      split: sum.splits option.splits node.splits)

lemma installHook_reports:
  assumes "files s hookPath = Some (File c m)" "git env git_rev_parse = Inr out"
    "files s hooksDir = Some Dir"
  shows "installHook env s =
     (Return (), s\<lparr>git_calls := git_calls s @ [git_rev_parse],
                   console := console s @ (Stdout, already_exists_line)
                      # (if includes_str c (str ''devlog'') then [(Stdout, already_integrated_line)]
                         else map (Pair Stdout) not_integrated_lines)\<rparr>)"
  using assms
  by (simp add: installHook_def isGitRepository_eq existsSync_def readFileSync_def
      not_integrated_lines_def io_defs)

lemma installHook_fresh:
  assumes "git env git_rev_parse = Inr out" "files s hooksDir = Some Dir" "files s hookPath = None"
  shows "installHook env s =
     (Return (), s\<lparr>git_calls := git_calls s @ [git_rev_parse],
                   files := (files s)(hookPath \<mapsto> File hookContent mode_755),
                   console := console s @ map (Pair Stdout) installed_lines\<rparr>)"
  using assms
  by (simp add: installHook_def isGitRepository_eq existsSync_def writeFileSync_def chmodSync_def
      dirname_hookPath installed_lines_def io_defs)

lemma run_install:
  "str ''--force'' \<notin> set rest \<Longrightarrow> run env (str ''install'' # rest) = installHook env"
  "str ''--force'' \<in> set rest \<Longrightarrow> run env (str ''install'' # rest) = installHookForce env"
  by (simp_all add: run_def)

text \<open>
  C7. Where a \<open>post-commit\<close> hook file exists, \<open>install\<close> without \<open>--force\<close> leaves the
  whole file tree as it was, in every run. In a run that passes the checks before (the
  repository test succeeds and \<open>.git/hooks\<close> is there) it returns normally and what it
  writes is the notice that the hook exists followed, when the text of the hook contains
  \<open>devlog\<close>, by the line that devlog is already integrated, and otherwise by the four
  lines that it is not and how to merge or replace.
\<close>

theorem install_keeps_existing_hook:
  assumes "files s hookPath = Some (File c m)" and "str ''--force'' \<notin> set rest"
  shows "files (snd (run env (str ''install'' # rest) s)) = files s
       \<and> (git env git_rev_parse = Inr out \<and> files s hooksDir = Some Dir \<longrightarrow>
            fst (run env (str ''install'' # rest) s) = Return ()
            \<and> printed s (snd (run env (str ''install'' # rest) s))
                = (Stdout, already_exists_line)
                  # (if \<exists>pre post. c = pre @ str ''devlog'' @ post
                     then [(Stdout, already_integrated_line)]
                     else map (Pair Stdout) not_integrated_lines))"
  using assms installHook_keeps [of s env]
  by (auto simp add: run_install installHook_reports printed_def includes_str_iff)

theorem install_keeps_existing_hook_witness:
  "files (snd (run example_env [str ''install'']
       (repository [hookPath \<mapsto> File (str ''#!/bin/sh\<newline>make lint'') mode_755])))
     = files (repository [hookPath \<mapsto> File (str ''#!/bin/sh\<newline>make lint'') mode_755])
   \<and> fst (run example_env [str ''install'']
       (repository [hookPath \<mapsto> File (str ''#!/bin/sh\<newline>make lint'') mode_755])) = Return ()
   \<and> console (snd (run example_env [str ''install'']
       (repository [hookPath \<mapsto> File (str ''#!/bin/sh\<newline>make lint'') mode_755])))
     = (Stdout, already_exists_line) # map (Pair Stdout) not_integrated_lines
   \<and> console (snd (run example_env [str ''install''] (repository [hookPath \<mapsto> File hookContent mode_755])))
     = [(Stdout, already_exists_line), (Stdout, already_integrated_line)]"
proof -
  let ?s = "repository [hookPath \<mapsto> File (str ''#!/bin/sh\<newline>make lint'') mode_755]"
  let ?t = "repository [hookPath \<mapsto> File hookContent mode_755]"
  have fs: "files ?s hookPath = Some (File (str ''#!/bin/sh\<newline>make lint'') mode_755)"
    and ft: "files ?t hookPath = Some (File hookContent mode_755)"
    by (simp_all add: repository_def initial_def hook_paths_differ)
  have ds: "files ?s hooksDir = Some Dir" and dt: "files ?t hooksDir = Some Dir"
    by (simp_all add: repository_def initial_def)
  have g: "git example_env git_rev_parse = Inr (str ''true\<newline>'')"
    by (simp add: example_env_def example_git_def git_rev_parse_def git_log_hash_def git_log_message_def)
  have nf: "str ''--force'' \<notin> set []" by simp
  have lint: "\<not> includes_str (str ''#!/bin/sh\<newline>make lint'') (str ''devlog'')" by code_simp
  have ours: "includes_str hookContent (str ''devlog'')" by code_simp
  have cs: "console ?s = []" and ct: "console ?t = []" by (simp_all add: repository_def initial_def)
  from install_keeps_existing_hook [OF fs nf, of example_env "str ''true\<newline>''"]
    install_keeps_existing_hook [OF ft nf, of example_env "str ''true\<newline>''"]
    ds dt g lint ours cs ct
  show ?thesis by (simp add: printed_def includes_str_iff)
qed


lemma installHookForce_eq:
  assumes "files s hookPath = Some (File c m)" "git env git_rev_parse = Inr out"
    "files s hooksDir = Some Dir" "files s backupPath \<noteq> Some Dir"
  shows "installHookForce env s =
     (Return (), s\<lparr>git_calls := git_calls s @ [git_rev_parse, git_rev_parse],
                   files := (files s)(backupPath \<mapsto> File c m, hookPath \<mapsto> File hookContent mode_755),
                   console := console s
                      @ (Stdout, clipboard @ str '' Backed up existing hook to: '' @ backupPath)
                      # map (Pair Stdout) installed_lines\<rparr>)"
proof -
  let ?s1 = "s\<lparr>git_calls := git_calls s @ [git_rev_parse],
               files := (files s)(backupPath \<mapsto> File c m),
               console := console s @ [(Stdout, clipboard @ str '' Backed up existing hook to: '' @ backupPath)],
               files := (files s)(backupPath \<mapsto> File c m, hookPath := None)\<rparr>"
  have copy: "copyFileSync hookPath backupPath (s\<lparr>git_calls := git_calls s @ [git_rev_parse]\<rparr>)
      = (Return (), s\<lparr>git_calls := git_calls s @ [git_rev_parse],
                       files := (files s)(backupPath \<mapsto> File c m)\<rparr>)"
    using assms by (auto simp add: copyFileSync_def dirname_backupPath io_defs
        split: option.splits node.splits)
  have first: "installHookForce env s = installHook env ?s1"
    using assms(1,2)
    by (simp add: installHookForce_def isGitRepository_eq existsSync_def copy unlinkSync_def
        hook_paths_differ io_defs)
  have "installHook env ?s1 =
     (Return (), ?s1\<lparr>git_calls := git_calls ?s1 @ [git_rev_parse],
                   files := (files ?s1)(hookPath \<mapsto> File hookContent mode_755),
                   console := console ?s1 @ map (Pair Stdout) installed_lines\<rparr>)"
    by (rule installHook_fresh [OF assms(2)]) (simp_all add: assms(3) hook_paths_differ)
  thus ?thesis by (simp add: first)
qed

text \<open>
  C8. Where a \<open>post-commit\<close> hook file exists, in a repository (the repository test
  succeeds, \<open>.git/hooks\<close> is a directory) and with no directory in the place of the
  backup, \<open>install --force\<close> returns normally and leaves the file tree changed in two
  places: \<open>.git/hooks/post-commit.backup\<close> holds the text (and mode) the hook had, and
  \<open>.git/hooks/post-commit\<close> is the file a fresh install writes, \<open>hookContent\<close> with mode
  \<open>0o755\<close>.
\<close>

theorem install_force_backs_up:
  assumes "files s hookPath = Some (File c m)" and "str ''--force'' \<in> set rest"
    and "git env git_rev_parse = Inr out" and "files s hooksDir = Some Dir"
    and "files s backupPath \<noteq> Some Dir"
  shows "fst (run env (str ''install'' # rest) s) = Return ()
       \<and> files (snd (run env (str ''install'' # rest) s))
           = (files s)(backupPath \<mapsto> File c m, hookPath \<mapsto> File hookContent mode_755)
       \<and> (files t hookPath = None \<and> files t hooksDir = Some Dir \<longrightarrow>
            files (snd (run env [str ''install''] t)) hookPath
              = files (snd (run env (str ''install'' # rest) s)) hookPath)"
  using assms
  by (simp add: run_install installHookForce_eq installHook_fresh)

theorem install_force_backs_up_witness:
  "fst (run example_env [str ''install'', str ''--force'']
          (repository [hookPath \<mapsto> File (str ''#!/bin/sh\<newline>make lint'') mode_644])) = Return ()
   \<and> files (snd (run example_env [str ''install'', str ''--force'']
          (repository [hookPath \<mapsto> File (str ''#!/bin/sh\<newline>make lint'') mode_644]))) backupPath
       = Some (File (str ''#!/bin/sh\<newline>make lint'') mode_644)
   \<and> files (snd (run example_env [str ''install'', str ''--force'']
          (repository [hookPath \<mapsto> File (str ''#!/bin/sh\<newline>make lint'') mode_644]))) hookPath
       = Some (File hookContent mode_755)
   \<and> files (snd (run example_env [str ''install''] (repository Map.empty))) hookPath
       = Some (File hookContent mode_755)"
proof -
  let ?s = "repository [hookPath \<mapsto> File (str ''#!/bin/sh\<newline>make lint'') mode_644]"
  let ?t = "repository Map.empty"
  have fs: "files ?s hookPath = Some (File (str ''#!/bin/sh\<newline>make lint'') mode_644)"
    by (simp add: repository_def initial_def hook_paths_differ)
  have force: "str ''--force'' \<in> set [str ''--force'']" by simp
  have g: "git example_env git_rev_parse = Inr (str ''true\<newline>'')"
    by (simp add: example_env_def example_git_def git_rev_parse_def git_log_hash_def git_log_message_def)
  have ds: "files ?s hooksDir = Some Dir" by (simp add: repository_def initial_def)
  have bs: "files ?s backupPath \<noteq> Some Dir" by (simp add: repository_def initial_def hook_paths_differ)
  have t: "files ?t hookPath = None \<and> files ?t hooksDir = Some Dir"
    by (simp add: repository_def initial_def hook_paths_differ)
  from install_force_backs_up [OF fs force g ds bs, of ?t] t
  show ?thesis by (simp add: hook_paths_differ)
qed

subsection \<open>The hook script\<close>

lemma hookScript_renders: "concat (map sh_render hookScript) = hookLines"
  by code_simp

lemma hookScript_runs:
  "sh_exec mc hookScript [] =
     (if \<not> on_path mc (str ''devlog'')
      then ([Printed (str ''devlog command not found. Please install devlog-cli first.'')], Some 0)
      else if \<not> regular_file mc (home mc @ str ''/.config/devlog.json'')
      then ([Printed (str ''devlog not configured. Run 'devlog config' first.'')], Some 0)
      else ([Printed (memo @ str '' Logging commit to devlog...''), Ran (str ''devlog'') []], Some 0))"
  by (simp add: hookScript_def sh_holds_def expand_home_def str_def)

text \<open>
  C3, as the code has it. A fresh install (in a repository whose \<open>.git/hooks\<close> is a
  directory without a \<open>post-commit\<close>) writes the file \<open>hookContent\<close> with mode \<open>0o755\<close>,
  executable by owner, group and others. Its text is that of \<open>hookScript\<close>, a script for
  \<open>/bin/bash\<close>, which always exits with status 0: with no \<open>devlog\<close> on the \<open>PATH\<close> it prints
  one line saying so and does nothing else; with \<open>devlog\<close> there and no regular file
  \<open>$HOME/.config/devlog.json\<close> it prints one line saying that devlog is not configured
  and does nothing else; otherwise it prints a line and runs \<open>devlog\<close> with no arguments.
\<close>

theorem fresh_hook_script:
  assumes "git env git_rev_parse = Inr out" and "files s hooksDir = Some Dir"
    and "files s hookPath = None"
  shows "files (snd (installHook env s)) hookPath = Some (File hookContent mode_755)
       \<and> executable_by_all mode_755
       \<and> hookContent = join newline (concat (map sh_render hookScript))
       \<and> hd hookScript = Shebang (str ''/bin/bash'')
       \<and> sh_exec mc hookScript [] =
           (if \<not> on_path mc (str ''devlog'')
            then ([Printed (str ''devlog command not found. Please install devlog-cli first.'')], Some 0)
            else if \<not> regular_file mc (home mc @ str ''/.config/devlog.json'')
            then ([Printed (str ''devlog not configured. Run 'devlog config' first.'')], Some 0)
            else ([Printed (memo @ str '' Logging commit to devlog...''), Ran (str ''devlog'') []], Some 0))"
proof -
  have "executable_by_all mode_755" by (simp add: executable_by_all_def mode_755_def)
  moreover have "hd hookScript = Shebang (str ''/bin/bash'')" by (simp add: hookScript_def)
  ultimately show ?thesis
    using assms by (simp add: installHook_fresh hookScript_renders hookContent_def hookScript_runs)
qed

theorem fresh_hook_script_witness:
  "files (snd (installHook example_env (repository Map.empty))) hookPath
     = Some (File hookContent mode_755)
   \<and> sh_exec machine_ready hookScript []
     = ([Printed (memo @ str '' Logging commit to devlog...''), Ran (str ''devlog'') []], Some 0)"
proof -
  have g: "git example_env git_rev_parse = Inr (str ''true\<newline>'')"
    by (simp add: example_env_def example_git_def git_rev_parse_def git_log_hash_def git_log_message_def)
  have d: "files (repository Map.empty) hooksDir = Some Dir"
    and h: "files (repository Map.empty) hookPath = None"
    by (simp_all add: repository_def initial_def hook_paths_differ)
  have p: "on_path machine_ready (str ''devlog'')"
    and c: "regular_file machine_ready (home machine_ready @ str ''/.config/devlog.json'')"
    by (simp_all add: machine_ready_def str_def)
  from fresh_hook_script [OF g d h, of machine_ready] p c show ?thesis by simp
qed

theorem fresh_hook_script_counterexample:
  "sh_exec machine_without_tool hookScript []
     = ([Printed (str ''devlog command not found. Please install devlog-cli first.'')], Some 0)
   \<and> sh_exec machine_without_config hookScript []
     = ([Printed (str ''devlog not configured. Run 'devlog config' first.'')], Some 0)
   \<and> hd hookLines = str ''#!/bin/bash''"
  by (simp add: hookScript_runs machine_without_tool_def machine_without_config_def hookLines_def)

subsection \<open>Interactive configuration\<close>

lemma map_of_assign: "map_of (assign kvs k x) k' = (if k' = k then Some x else map_of kvs k')"
  by (induction kvs) auto

lemma extra_fields_assign: "k \<in> set documented \<Longrightarrow> extra_fields (assign kvs k x) = extra_fields kvs"
proof (induction kvs)
  case Nil
  thus ?case by (simp add: extra_fields_def)
next
  case (Cons p kvs)
  obtain k' y where p: "p = (k', y)" by (cases p)
  show ?case using Cons by (cases "k' = k") (simp_all add: p extra_fields_def)
qed

lemma extra_fields_configured: "extra_fields (configured_object kvs a1 a2 a3 a4) = extra_fields kvs"
  by (simp add: configured_object_def Let_def extra_fields_assign documented_def)

lemma map_of_configured:
  "k \<notin> set documented \<Longrightarrow> map_of (configured_object kvs a1 a2 a3 a4) k = map_of kvs k"
  by (auto simp add: configured_object_def Let_def map_of_assign documented_def)

lemma saveConfig_file:
  assumes "files s (configPath env) = Some (File c m)" "files s (dirname (configPath env)) \<noteq> None"
  shows "saveConfig env v s =
     (Return (), s\<lparr>files := (files s)(configPath env \<mapsto> File (json_stringify env v) m),
                   console := console s @ [(Stdout, str ''Configuration saved successfully.'')]\<rparr>)"
  using assms
  by (auto simp add: saveConfig_def ensureConfigDir_def existsSync_def writeFileSync_def io_defs)

lemma configure_completes:
  assumes "files s (configPath env) = Some (File c m)" "json_parse env c = Inr (JObj kvs)"
    "files s (dirname (configPath env)) \<noteq> None"
    "stdin s = a1 # a2 # a3 # a4 # rest"
    "(\<exists>k. map_of kvs (str ''apiKey'') = Some (JStr k) \<and> (k \<noteq> [] \<or> trim a1 \<noteq> []))
     \<or> (\<not> truthy (map_of kvs (str ''apiKey'')) \<and> trim a1 \<noteq> [])"
  shows "fst (configure env s) = Return ()
     \<and> files (snd (configure env s))
         = (files s)(configPath env \<mapsto>
              File (json_stringify env (JObj (configured_object kvs a1 a2 a3 a4))) m)"
  using assms
  by (auto simp add: configure_def loadConfig_eq get_prop_def set_prop_def prompt_def saveConfig_file
      configured_object_def Let_def io_defs)

lemma configure_frame:
  assumes "files s (configPath env) = Some (File c m)" "json_parse env c = Inr (JObj kvs)"
    "files s (dirname (configPath env)) \<noteq> None"
  shows "files (snd (configure env s)) = files s
     \<or> (\<exists>a1 a2 a3 a4. files (snd (configure env s))
         = (files s)(configPath env \<mapsto>
              File (json_stringify env (JObj (configured_object kvs a1 a2 a3 a4))) m))"
proof (cases "stdin s")
  case Nil
  thus ?thesis using assms
    by (auto simp add: configure_def loadConfig_eq get_prop_def prompt_def io_defs
        split: option.splits json.splits)
next
  case 1: (Cons a1 r1)
  show ?thesis
  proof (cases r1)
    case Nil
    thus ?thesis using assms 1
      by (auto simp add: configure_def loadConfig_eq get_prop_def set_prop_def prompt_def io_defs
          split: option.splits json.splits)
  next
    case 2: (Cons a2 r2)
    show ?thesis
    proof (cases r2)
      case Nil
      thus ?thesis using assms 1 2
        by (auto simp add: configure_def loadConfig_eq get_prop_def set_prop_def prompt_def io_defs
            split: option.splits json.splits)
    next
      case 3: (Cons a3 r3)
      show ?thesis
      proof (cases r3)
        case Nil
        thus ?thesis using assms 1 2 3
          by (auto simp add: configure_def loadConfig_eq get_prop_def set_prop_def prompt_def io_defs
              split: option.splits json.splits)
      next
        case 4: (Cons a4 r4)
        have shape: "stdin s = a1 # a2 # a3 # a4 # r4" using 1 2 3 4 by simp
        show ?thesis
        proof (cases "(\<exists>k. map_of kvs (str ''apiKey'') = Some (JStr k) \<and> (k \<noteq> [] \<or> trim a1 \<noteq> []))
             \<or> (\<not> truthy (map_of kvs (str ''apiKey'')) \<and> trim a1 \<noteq> [])")
          case True
          from configure_completes [OF assms shape True] show ?thesis by blast
        next
          case False
          thus ?thesis using assms shape
            by (auto simp add: configure_def loadConfig_eq get_prop_def set_prop_def prompt_def io_defs
                split: option.splits json.splits)
        qed
      qed
    qed
  qed
qed


text \<open>
  C10. Where the configuration file holds an object (and stands in a directory),
  \<open>configure\<close> either leaves the file tree as it was or writes to the configuration
  file, and to nothing else, \<open>JSON.stringify\<close> of an object whose properties other than
  \<open>apiKey\<close>, \<open>apiBaseUrl\<close>, \<open>includeCommitHash\<close> and \<open>includeDate\<close> are those of the object
  loaded, with the same values and in the same order. It does write when four answers are
  typed and an API key is at hand (typed, or in the file as a non-empty string), the key
  in the file being a string or missing: then it returns normally and the object written
  is the object loaded with the four properties assigned.
\<close>

theorem configure_preserves_extra_fields:
  assumes "files s (configPath env) = Some (File c m)" and "json_parse env c = Inr (JObj kvs)"
    and "files s (dirname (configPath env)) \<noteq> None"
  shows "(files (snd (configure env s)) = files s
          \<or> (\<exists>kvs'. files (snd (configure env s))
                      = (files s)(configPath env \<mapsto> File (json_stringify env (JObj kvs')) m)
                \<and> extra_fields kvs' = extra_fields kvs
                \<and> (\<forall>k. k \<notin> set documented \<longrightarrow> map_of kvs' k = map_of kvs k)))
       \<and> (stdin s = a1 # a2 # a3 # a4 # rest
          \<and> ((\<exists>k. map_of kvs (str ''apiKey'') = Some (JStr k) \<and> (k \<noteq> [] \<or> trim a1 \<noteq> []))
             \<or> (\<not> truthy (map_of kvs (str ''apiKey'')) \<and> trim a1 \<noteq> [])) \<longrightarrow>
            fst (configure env s) = Return ()
            \<and> files (snd (configure env s))
                = (files s)(configPath env \<mapsto>
                     File (json_stringify env (JObj (configured_object kvs a1 a2 a3 a4))) m))"
proof (intro conjI impI)
  from configure_frame [OF assms]
  show "files (snd (configure env s)) = files s
          \<or> (\<exists>kvs'. files (snd (configure env s))
                      = (files s)(configPath env \<mapsto> File (json_stringify env (JObj kvs')) m)
                \<and> extra_fields kvs' = extra_fields kvs
                \<and> (\<forall>k. k \<notin> set documented \<longrightarrow> map_of kvs' k = map_of kvs k))"
    using extra_fields_configured map_of_configured by blast
next
  assume "stdin s = a1 # a2 # a3 # a4 # rest
          \<and> ((\<exists>k. map_of kvs (str ''apiKey'') = Some (JStr k) \<and> (k \<noteq> [] \<or> trim a1 \<noteq> []))
             \<or> (\<not> truthy (map_of kvs (str ''apiKey'')) \<and> trim a1 \<noteq> []))"
  hence shape: "stdin s = a1 # a2 # a3 # a4 # rest"
    and key: "(\<exists>k. map_of kvs (str ''apiKey'') = Some (JStr k) \<and> (k \<noteq> [] \<or> trim a1 \<noteq> []))
             \<or> (\<not> truthy (map_of kvs (str ''apiKey'')) \<and> trim a1 \<noteq> [])"
    by blast+
  from configure_completes [OF assms shape key]
  show "fst (configure env s) = Return ()"
    and "files (snd (configure env s))
                = (files s)(configPath env \<mapsto>
                     File (json_stringify env (JObj (configured_object kvs a1 a2 a3 a4))) m)"
    by blast+
qed

theorem configure_preserves_extra_fields_witness:
  "fst (configure example_env
         ((configured team_config_text)\<lparr>stdin := [str '' new-key '', str '''', str ''n'', str ''y'']\<rparr>))
     = Return ()
   \<and> files (snd (configure example_env
         ((configured team_config_text)\<lparr>stdin := [str '' new-key '', str '''', str ''n'', str ''y'']\<rparr>)))
       (configPath example_env)
     = Some (File team_config_saved_text mode_644)
   \<and> json_parse example_env team_config_text = Inr (JObj team_config)
   \<and> json_stringify example_env (JObj team_config_saved) = team_config_saved_text
   \<and> extra_fields team_config = [(str ''team'', JStr (str ''core''))]
   \<and> extra_fields team_config_saved = [(str ''team'', JStr (str ''core''))]"
proof -
  let ?s = "(configured team_config_text)\<lparr>stdin := [str '' new-key '', str '''', str ''n'', str ''y'']\<rparr>"
  have f: "files ?s (configPath example_env) = Some (File team_config_text mode_644)"
    by (simp add: configured_def initial_def)
  have p: "json_parse example_env team_config_text = Inr (JObj team_config)"
    by (simp add: example_env_def example_parse_def example_config_text_def plain_config_text_def
        team_config_text_def)
  have d: "files ?s (dirname (configPath example_env)) \<noteq> None"
    by (simp add: configured_def initial_def)
  have typed: "stdin ?s = [str '' new-key '', str '''', str ''n'', str ''y'']" by simp
  have key: "map_of team_config (str ''apiKey'') = Some (JStr (str ''k''))"
    by (simp add: team_config_def)
  have obj: "configured_object team_config (str '' new-key '') (str '''') (str ''n'') (str ''y'')
      = team_config_saved"
    by code_simp
  have out: "json_stringify example_env (JObj team_config_saved) = team_config_saved_text"
    by (simp add: example_env_def example_stringify_def)
  have x: "extra_fields team_config = [(str ''team'', JStr (str ''core''))]"
    "extra_fields team_config_saved = [(str ''team'', JStr (str ''core''))]"
    by (simp_all add: extra_fields_def documented_def team_config_def team_config_saved_def)
  from configure_preserves_extra_fields [OF f p d, of "str '' new-key ''" "str ''''" "str ''n''" "str ''y''" "[]"]
    typed key obj out p x
  show ?thesis by simp
qed

end
